theory Spec2Isabelle
  imports Complex_Main "HOL-Library.AList" "HOL-Library.Char_ord" "HOL-Library.List_Lexorder"
begin

section \<open>Data model of the wiki page store\<close>

text \<open>
  The embedding follows \<^verbatim>\<open>src/models/wiki_page.py\<close> and \<^verbatim>\<open>src/schema.py\<close>.
  Python text is a \<open>string\<close>; a dictionary is an association list with distinct
  keys, iterated in list order; an exception is a value of \<open>error\<close>; a call that
  may not return has an \<open>option\<close> result, \<open>None\<close> meaning that it does not
  return.
\<close>

type_synonym title = string
type_synonym rel = string
type_synonym links = "(rel \<times> title list) list"
type_synonym metadata = "(string \<times> string) list"
type_synonym user = "string option"

datatype error =
    ValueError string
  | ConflictError string string string string
  | KeyError string
  | IndexError
  | AttributeError
  | RuntimeError string

text \<open>The fields of \<open>WikiPage\<close>. \<open>has_key\<close> is the truth value of \<open>page.key\<close>:
  an entity has a key once it has been read from or written to the store. The
  optional string fields whose emptiness is all the code tests (\<open>acl_read\<close>,
  \<open>acl_write\<close>, \<open>description\<close>, \<open>comment\<close>, \<open>itemtype_path\<close>) hold \<open>[]\<close> for
  Python's \<open>None\<close>.\<close>

record page =
  title :: title
  body :: string
  revision :: int
  description :: string
  comment :: string
  modifier :: user
  acl_read :: string
  acl_write :: string
  inlinks :: links
  outlinks :: links
  related_links :: "(title \<times> rat) list"
  itemtype_path :: string
  updated_at :: "nat option"
  published_at :: "nat option"
  published_to :: "string option"
  older_title :: "title option"
  newer_title :: "title option"
  has_key :: bool

text \<open>\<open>WikiPageRevision\<close>: the immutable snapshot written with every accepted edit.\<close>

record wiki_page_revision =
  rev_title :: title
  rev_body :: string
  rev_created_at :: "nat option"
  rev_revision :: int
  rev_comment :: string
  rev_modifier :: user
  rev_acl_read :: string
  rev_acl_write :: string

text \<open>Typed structured data (\<^verbatim>\<open>src/schema.py\<close>): the class of a property object
  and a dictionary value, which is one property or a list of them.\<close>

datatype prop_class =
    ISBNProperty | URLProperty | DateProperty | DateTimeProperty | TimeProperty
  | BooleanProperty | IntegerProperty | FloatProperty | NumberProperty
  | TextProperty | TypeProperty | ThingProperty | InvalidProperty | Property

record property =
  pclass :: prop_class
  p_itemtype :: string
  ptype :: string
  pvalue :: string

datatype dvalue = One property | Many "property list"

type_synonym data = "(string \<times> dvalue) list"

text \<open>The query that \<open>search.parse_wikiquery\<close> hands over is a nested Python list of
  strings.\<close>

datatype qnode = Str string | Lst "qnode list"

text \<open>A cell of a result row of \<open>wikiquery\<close>: a title (the \<open>name\<close> projection) or the
  value of an attribute in the page data (\<open>None\<close> where the page has none). A result is
  a list of rows, or the bare row where there is exactly one.\<close>

datatype cell = Name title | Attr "dvalue option"

type_synonym row = "(string \<times> cell) list"

datatype wq_result = Rows "row list" | Single row

text \<open>Work handed to \<open>deferred.defer\<close>.\<close>

datatype task =
    UpdateLinks page "string option" "string option"
  | UpdateIndex title data data

text \<open>The state outside the page object in hand: the page store (keyed by title, as
  the specification's store interface has it), the revision records, the queue of
  deferred work, the calls made to \<open>SchemaDataIndex.update_index\<close>, the calls made to
  \<open>Merge3\<close> (base, current, proposed), the clock that \<open>datetime.now()\<close> reads, and
  the two caches that \<open>wikiquery\<close> reads: the title sets of \<open>caching.get_titles\<close> by
  email, and the results of \<open>caching.get_wikiquery\<close> by query text and email.

  The per-title caches of the derived properties (rendered body, hashbangs, metadata,
  data) are not part of the state. The mutation pipeline deletes them with every
  write of a body, so the \<open>metadata\<close> and \<open>data\<close> of a page are what a read computes
  on a miss: functions of the page.\<close>

record world =
  store :: "(title \<times> page) list"
  revisions :: "wiki_page_revision list"
  tasks :: "task list"
  index_log :: "(title \<times> data \<times> data) list"
  merge_log :: "(string \<times> string \<times> string) list"
  clock :: nat
  titles_cache :: "(string \<times> title list) list"
  wikiquery_cache :: "((string \<times> string) \<times> wq_result) list"

text \<open>The collaborators whose code is not part of the sources are parameters:
  \<open>PageOperationMixin.parse_metadata\<close>, \<open>parse_data\<close>, the \<open>data\<close> property,
  \<open>can_read\<close> and \<open>can_write\<close> (with the default permission of the configuration;
  the two optional lists are the \<open>acl_r\<close> and \<open>acl_w\<close> overrides),
  \<open>TocGenerator(md.convert(body)).is_invalid()\<close>, \<open>make_description\<close>,
  \<open>''''.join(Merge3(base, a, b).merge_lines())\<close>, the number of matches of
  \<open>re_conflicted\<close>, the \<open>supertypes\<close> entry of \<open>schema.get_schema\<close> (\<open>None\<close> where the
  lookup raises \<open>KeyError\<close>), the dictionary that \<open>merge_dicts\<close> returns inside
  \<open>_parse_outlinks\<close>, \<open>SchemaDataIndex.query_titles\<close> (on whatever two values the
  query holds), \<open>search.parse_wikiquery\<close> (the query, the projection and the sort
  criteria), and the text that \<open>'%s' %\<close> gives for a Python list.\<close>

record env =
  parse_metadata :: "string \<Rightarrow> error + metadata"
  parse_data :: "title \<Rightarrow> string \<Rightarrow> string \<Rightarrow> error + data"
  data_of :: "page \<Rightarrow> error + data"
  can_read :: "page \<Rightarrow> user \<Rightarrow> string list option \<Rightarrow> string list option \<Rightarrow> bool"
  can_write :: "page \<Rightarrow> user \<Rightarrow> string list option \<Rightarrow> string list option \<Rightarrow> bool"
  toc_invalid :: "string \<Rightarrow> string option"
  make_description :: "string \<Rightarrow> string"
  merge3 :: "string \<Rightarrow> string \<Rightarrow> string \<Rightarrow> string"
  conflict_markers :: "string \<Rightarrow> nat"
  supertypes :: "string \<Rightarrow> string list option"
  merged_links :: "page \<Rightarrow> links"
  query_titles :: "qnode \<Rightarrow> qnode \<Rightarrow> error + title set"
  parse_wikiquery :: "string \<Rightarrow> error + qnode \<times> string list \<times> (string \<times> string) list"
  repr_list :: "qnode list \<Rightarrow> string"

section \<open>Looking pages up and following redirects\<close>

text \<open>\<open>WikiPage(parent=key, title=title, body=u'''', revision=0, inlinks={},
  outlinks={}, related_links={})\<close>: the placeholder for a title with no stored page.\<close>

definition new_page :: "title \<Rightarrow> page" where
  "new_page t =
     \<lparr>title = t, body = [], revision = 0, description = [], comment = [],
      modifier = None, acl_read = [], acl_write = [], inlinks = [], outlinks = [],
      related_links = [], itemtype_path = [], updated_at = None, published_at = None,
      published_to = None, older_title = None, newer_title = None, has_key = False\<rparr>"

text \<open>\<open>get_by_title(title)\<close> without \<open>follow_redirect\<close>: \<open>title[0]\<close> raises on the
  empty title, a title that starts with \<open>=\<close> is refused, and a miss gives the
  placeholder.\<close>

definition get_page :: "world \<Rightarrow> title \<Rightarrow> error + page" where
  "get_page w t =
     (if t = [] then Inl IndexError
      else if hd t = CHR ''='' then Inl (ValueError ''WikiPage title cannot starts with =='')
      else (case map_of (store w) t of
              None \<Rightarrow> Inr (new_page t)
            | Some p \<Rightarrow> Inr p))"

text \<open>Python's truth value of an optional string.\<close>

fun truthy :: "string option \<Rightarrow> bool" where
  "truthy None = False"
| "truthy (Some s) = (s \<noteq> [])"

text \<open>The \<open>while\<close> loop of \<open>_follow_redirect\<close>. \<open>trail\<close> is passed on unchanged, as
  the loop never adds to it. \<open>new_redir\<close> is used once and then \<open>None\<close>.\<close>

partial_function (option) follow_redirect_loop ::
  "env \<Rightarrow> world \<Rightarrow> title set \<Rightarrow> page \<Rightarrow> string option \<Rightarrow> (error + page) option" where
  "follow_redirect_loop E w trail p new_redir =
     (case (if truthy new_redir then Inr new_redir
            else (case parse_metadata E (body p) of
                    Inl e \<Rightarrow> Inl e
                  | Inr md \<Rightarrow> Inr (map_of md ''redirect''))) of
        Inl e \<Rightarrow> Some (Inl e)
      | Inr None \<Rightarrow> Some (Inr p)
      | Inr (Some next_title) \<Rightarrow>
          (if next_title \<in> trail
           then Some (Inl (ValueError ''Circular redirection detected''))
           else (case get_page w next_title of
                   Inl e \<Rightarrow> Some (Inl e)
                 | Inr p' \<Rightarrow> follow_redirect_loop E w trail p' None)))"

declare follow_redirect_loop.simps [code]

definition follow_redirect ::
  "env \<Rightarrow> world \<Rightarrow> page \<Rightarrow> string option \<Rightarrow> (error + page) option" where
  "follow_redirect E w p new_redir = follow_redirect_loop E w {title p} p new_redir"

text \<open>\<open>get_by_title(title, follow_redirect)\<close>.\<close>

definition get_by_title :: "env \<Rightarrow> world \<Rightarrow> title \<Rightarrow> bool \<Rightarrow> (error + page) option" where
  "get_by_title E w t follow =
     (if t = [] then Some (Inl IndexError)
      else if hd t = CHR ''='' then Some (Inl (ValueError ''WikiPage title cannot starts with ==''))
      else (case map_of (store w) t of
              None \<Rightarrow> Some (Inr (new_page t))
            | Some p \<Rightarrow> if follow then follow_redirect E w p None else Some (Inr p)))"

section \<open>Text helpers\<close>

definition CR :: char where "CR = CHR 0x0D"
definition LF :: char where "LF = CHR 0x0A"

text \<open>\<open>content.replace('\r\n', '\n')\<close>: one pass from the left over non-overlapping
  occurrences.\<close>

fun replace_crlf :: "string \<Rightarrow> string" where
  "replace_crlf (c # d # cs) =
     (if c = CR \<and> d = LF then LF # replace_crlf cs else c # replace_crlf (d # cs))"
| "replace_crlf cs = cs"

text \<open>Whether a text contains a carriage return followed by a line feed.\<close>

fun has_crlf :: "string \<Rightarrow> bool" where
  "has_crlf (c # d # cs) = ((c = CR \<and> d = LF) \<or> has_crlf (d # cs))"
| "has_crlf cs = False"

text \<open>Whether a text contains a carriage return followed by a carriage return and a
  line feed.\<close>

fun has_cr_crlf :: "string \<Rightarrow> bool" where
  "has_cr_crlf (c # d # e # cs) = ((c = CR \<and> d = CR \<and> e = LF) \<or> has_cr_crlf (d # e # cs))"
| "has_cr_crlf cs = False"

text \<open>\<open>s.split(sep)\<close> for a one-character separator.\<close>

fun split_on :: "char \<Rightarrow> string \<Rightarrow> string list" where
  "split_on c [] = [[]]"
| "split_on c (x # xs) =
     (if x = c then [] # split_on c xs
      else (case split_on c xs of
              [] \<Rightarrow> [[x]]
            | y # ys \<Rightarrow> (x # y) # ys))"

text \<open>The decimal text of a number (\<open>'%d' % n\<close>) and the number of a digit string
  (\<open>int(digits)\<close>).\<close>

definition digit_char :: "nat \<Rightarrow> char" where
  "digit_char d = ''0123456789'' ! d"

fun string_of_nat :: "nat \<Rightarrow> string" where
  "string_of_nat n = (if n < 10 then [digit_char n] else string_of_nat (n div 10) @ [digit_char (n mod 10)])"

definition string_of_int :: "int \<Rightarrow> string" where
  "string_of_int i = (if i < 0 then CHR ''-'' # string_of_nat (nat (- i)) else string_of_nat (nat i))"

definition is_digit :: "char \<Rightarrow> bool" where
  "is_digit c = ((48::nat) \<le> of_char c \<and> of_char c \<le> (57::nat))"

definition nat_of_digits :: "string \<Rightarrow> nat" where
  "nat_of_digits ds = foldl (\<lambda>n c. 10 * n + (of_char c - 48)) 0 ds"

text \<open>\<open>re.match(prefix + '\[(\d+)]', exp)\<close> and \<open>int(group(1))\<close>: \<open>None\<close> where the
  expression does not match.\<close>

definition parse_index :: "string \<Rightarrow> string \<Rightarrow> nat option" where
  "parse_index prefix e =
     (let n = length prefix + 1;
          ds = takeWhile is_digit (drop n e);
          rest = dropWhile is_digit (drop n e)
      in if take n e = prefix @ ''['' \<and> ds \<noteq> [] \<and> rest \<noteq> [] \<and> hd rest = CHR '']''
         then Some (nat_of_digits ds) else None)"

text \<open>\<open>\s\<close> of a pattern without the \<open>UNICODE\<close> flag: blank, tab, line feed, carriage
  return, form feed, vertical tab.\<close>

definition is_space :: "char \<Rightarrow> bool" where
  "is_space c = (c \<in> {CHR '' '', CHR 0x09, CHR 0x0A, CHR 0x0D, CHR 0x0C, CHR 0x0B})"

text \<open>A match of \<open>\[(\s|x)]\<close> at the head of a text.\<close>

definition is_box :: "char \<Rightarrow> char \<Rightarrow> char \<Rightarrow> bool" where
  "is_box a b c = (a = CHR ''['' \<and> (is_space b \<or> b = CHR ''x'') \<and> c = CHR '']'')"

text \<open>\<open>re.sub(ur'\[(\s|x)]', replacer, body)\<close> with the replacer of
  \<open>_update_content_checkbox\<close>: \<open>cur\<close> counts the matches seen so far, the match
  number \<open>index\<close> is replaced by \<open>box\<close>, every other match and every other character
  is copied.\<close>

fun checkbox_sub :: "nat \<Rightarrow> nat \<Rightarrow> string \<Rightarrow> string \<Rightarrow> string" where
  "checkbox_sub cur index box (a # b # c # rest) =
     (if is_box a b c
      then (if cur = index then box else [a, b, c]) @ checkbox_sub (Suc cur) index box rest
      else a # checkbox_sub cur index box (b # c # rest))"
| "checkbox_sub cur index box s = s"

text \<open>The positions at which \<open>\[(\s|x)]\<close> matches, in document order, counted from
  \<open>off\<close>.\<close>

fun box_positions :: "nat \<Rightarrow> string \<Rightarrow> nat list" where
  "box_positions off (a # b # c # rest) =
     (if is_box a b c then off # box_positions (off + 3) rest
      else box_positions (Suc off) (b # c # rest))"
| "box_positions off s = []"

text \<open>The log marker \<open>[__]\<close> and the split of a line at its last marker, as the
  greedy pattern \<open>(.*)(\[__])(.*)\<close> splits it.\<close>

fun split_last_marker :: "string \<Rightarrow> (string \<times> string) option" where
  "split_last_marker [] = None"
| "split_last_marker (c # cs) =
     (case split_last_marker cs of
        Some (pre, post) \<Rightarrow> Some (c # pre, post)
      | None \<Rightarrow> if take 4 (c # cs) = ''[__]'' then Some ([], drop 4 (c # cs)) else None)"

text \<open>The lines of \<open>re.sub(ur'(.*)(\[__])(.*)', replacer, body)\<close> with the replacer of
  \<open>_update_content_log\<close>: the matching line number \<open>index\<close> gets the new entry on a
  line of its own above it.\<close>

fun log_sub :: "nat \<Rightarrow> nat \<Rightarrow> string \<Rightarrow> string list \<Rightarrow> string list" where
  "log_sub cur index content [] = []"
| "log_sub cur index content (l # ls) =
     (case split_last_marker l of
        None \<Rightarrow> l # log_sub cur index content ls
      | Some (pre, post) \<Rightarrow>
          (if cur = index then [pre @ content @ post, l] else [l])
          @ log_sub (Suc cur) index content ls)"

definition starts_with :: "string \<Rightarrow> string \<Rightarrow> bool" where
  "starts_with prefix s = (take (length prefix) s = prefix)"

section \<open>The schema catalogue and wikiquery\<close>

text \<open>\<open>sep.join(parts)\<close>.\<close>

fun join :: "string \<Rightarrow> string list \<Rightarrow> string" where
  "join sep [] = []"
| "join sep [x] = x"
| "join sep (x # y # ys) = x @ sep @ join sep (y # ys)"

text \<open>The \<open>while\<close> loop of \<open>schema.get_itemtype_path\<close>: \<open>parts\<close> collects the type and
  then the first supertype of each type in turn. A \<open>KeyError\<close> of the catalogue is
  turned into the \<open>ValueError\<close> of the \<open>except\<close> clause.\<close>

partial_function (option) itemtype_parts ::
  "env \<Rightarrow> string \<Rightarrow> string list \<Rightarrow> string \<Rightarrow> (error + string list) option" where
  "itemtype_parts E itemtype parts parent =
     (case supertypes E parent of
        None \<Rightarrow> Some (Inl (ValueError (''Unsupported schema: '' @ itemtype)))
      | Some supers \<Rightarrow>
          (case supers of
             [] \<Rightarrow> Some (Inr (parts @ [parent]))
           | s # _ \<Rightarrow> itemtype_parts E itemtype (parts @ [parent]) s))"

declare itemtype_parts.simps [code]

definition get_itemtype_path :: "env \<Rightarrow> string \<Rightarrow> (error + string) option" where
  "get_itemtype_path E itemtype =
     (case itemtype_parts E itemtype [] itemtype of
        None \<Rightarrow> None
      | Some (Inl e) \<Rightarrow> Some (Inl e)
      | Some (Inr parts) \<Rightarrow> Some (Inr (join ''/'' (rev parts @ [[]]))))"









text \<open>Running a fallible step over a list, in order: the first step that raises or
  does not return decides the result.\<close>

fun map_res :: "('a \<Rightarrow> (error + 'b) option) \<Rightarrow> 'a list \<Rightarrow> (error + 'b list) option" where
  "map_res f [] = Some (Inr [])"
| "map_res f (x # xs) =
     (case f x of
        None \<Rightarrow> None
      | Some (Inl e) \<Rightarrow> Some (Inl e)
      | Some (Inr y) \<Rightarrow>
          (case map_res f xs of
             None \<Rightarrow> None
           | Some (Inl e) \<Rightarrow> Some (Inl e)
           | Some (Inr ys) \<Rightarrow> Some (Inr (y # ys))))"







text \<open>The titles a result names through its \<open>name\<close> column.\<close>

definition result_names :: "wq_result \<Rightarrow> title list" where
  "result_names res =
     concat (map (\<lambda>r. case map_of r ''name'' of Some (Name t) \<Rightarrow> [t] | _ \<Rightarrow> [])
               (case res of Rows rs \<Rightarrow> rs | Single r \<Rightarrow> [r]))"

section \<open>The link graph\<close>

text \<open>The edges of a link dictionary in iteration order: \<open>for rel, titles in
  links.items(): for title in titles\<close>.\<close>

definition edges :: "links \<Rightarrow> (rel \<times> title) list" where
  "edges ls = concat (map (\<lambda>(r, ts). map (Pair r) ts) ls)"

text \<open>\<open>reduce(lambda a, b: a + b, links.values(), [])\<close>.\<close>

definition all_titles :: "links \<Rightarrow> title list" where
  "all_titles ls = concat (map snd ls)"

text \<open>\<open>_add_inout_links\<close> and \<open>_add_inout_link\<close>: the titles are appended to the list
  of the relation, which is then sorted; nothing removes duplicates.\<close>

definition add_inout_links :: "links \<Rightarrow> title list \<Rightarrow> rel \<Rightarrow> links" where
  "add_inout_links ls titles r =
     (if titles = [] then ls
      else AList.update r
             (sort ((case map_of ls r of None \<Rightarrow> [] | Some ts \<Rightarrow> ts) @ titles)) ls)"

definition add_inout_link :: "links \<Rightarrow> title \<Rightarrow> rel \<Rightarrow> links" where
  "add_inout_link ls t r = add_inout_links ls [t] r"

text \<open>\<open>_del_inout_link\<close>: with a relation that the dictionary has, the first
  occurrence of the title is removed from that relation; otherwise it is removed from
  every relation. A relation left without titles is deleted.\<close>

definition del_inout_link :: "links \<Rightarrow> title \<Rightarrow> rel option \<Rightarrow> links" where
  "del_inout_link ls t r =
     (case (case r of None \<Rightarrow> None | Some r' \<Rightarrow> map_option (Pair r') (map_of ls r')) of
        Some (r', ts) \<Rightarrow>
          (if remove1 t ts = [] then AList.delete r' ls
           else AList.update r' (remove1 t ts) ls)
      | None \<Rightarrow>
          filter (\<lambda>(r', ts). ts \<noteq> []) (map (\<lambda>(r', ts). (r', remove1 t ts)) ls))"

text \<open>\<open>put\<close>, \<open>ndb.put_multi\<close> and \<open>ndb.delete_multi\<close> on the store keyed by title;
  a batch is written in list order.\<close>

definition put :: "page \<Rightarrow> world \<Rightarrow> world" where
  "put p w = w\<lparr>store := AList.update (title p) (p\<lparr>has_key := True\<rparr>) (store w)\<rparr>"

definition put_multi :: "page list \<Rightarrow> world \<Rightarrow> world" where
  "put_multi ps w = foldl (\<lambda>w' p. put p w') w ps"

definition delete_multi :: "title list \<Rightarrow> world \<Rightarrow> world" where
  "delete_multi ts w = w\<lparr>store := foldl (\<lambda>s t. AList.delete t s) (store w) ts\<rparr>"

text \<open>The two loops of \<open>_update_inlinks\<close>. Every target is fetched afresh from the
  store as it is when the loop starts (the batch is written after the loop), changed
  and collected. A removed target left with no inlinks, revision 0 and a key is deleted
  instead of written; the closing cache loop then reads \<open>.title\<close> of a key, which
  raises \<open>AttributeError\<close> after the store has been changed.\<close>

definition fetch_add_inlink :: "env \<Rightarrow> world \<Rightarrow> title \<Rightarrow> rel \<times> title \<Rightarrow> (error + page) option" where
  "fetch_add_inlink E w self_title e =
     (case get_by_title E w (snd e) True of
        None \<Rightarrow> None
      | Some (Inl x) \<Rightarrow> Some (Inl x)
      | Some (Inr p) \<Rightarrow> Some (Inr (p\<lparr>inlinks := add_inout_link (inlinks p) self_title (fst e)\<rparr>)))"

definition fetch_del_inlink :: "env \<Rightarrow> world \<Rightarrow> title \<Rightarrow> rel \<times> title \<Rightarrow> (error + page) option" where
  "fetch_del_inlink E w self_title e =
     (case get_by_title E w (snd e) True of
        None \<Rightarrow> None
      | Some (Inl x) \<Rightarrow> Some (Inl x)
      | Some (Inr p) \<Rightarrow> Some (Inr (p\<lparr>inlinks := del_inout_link (inlinks p) self_title (Some (fst e))\<rparr>)))"

definition orphaned :: "page \<Rightarrow> bool" where
  "orphaned p = (inlinks p = [] \<and> revision p = 0 \<and> has_key p)"

definition update_inlinks ::
  "env \<Rightarrow> title \<Rightarrow> links \<Rightarrow> links \<Rightarrow> world \<Rightarrow> ((error + unit) \<times> world) option" where
  "update_inlinks E self_title added_outlinks removed_outlinks w =
     (case map_res (fetch_add_inlink E w self_title) (edges added_outlinks) of
        None \<Rightarrow> None
      | Some (Inl e) \<Rightarrow> Some (Inl e, w)
      | Some (Inr updates) \<Rightarrow>
          (let w1 = put_multi updates w in
           case map_res (fetch_del_inlink E w1 self_title) (edges removed_outlinks) of
             None \<Rightarrow> None
           | Some (Inl e) \<Rightarrow> Some (Inl e, w1)
           | Some (Inr ps) \<Rightarrow>
               (let deletes = filter orphaned ps;
                    w2 = delete_multi (map title deletes)
                           (put_multi (filter (\<lambda>p. \<not> orphaned p) ps) w1)
                in if deletes = [] then Some (Inr (), w2) else Some (Inl AttributeError, w2))))"

text \<open>\<open>_update_redirected_links\<close>. \<open>source\<close> and \<open>target\<close> are the page in hand where
  the old or the new redirect is empty, and fetched pages otherwise. All inlinks of the
  source move to the target, and every linking page (fetched without following
  redirects) has its outlink retargeted. The batch is \<open>[source, target]\<close> followed by
  the linking pages. The result carries the page in hand as the call leaves it.\<close>

definition retarget_outlink :: "world \<Rightarrow> title \<Rightarrow> title \<Rightarrow> rel \<times> title \<Rightarrow> (error + page) option" where
  "retarget_outlink w source_title target_title e =
     (case get_page w (snd e) of
        Inl x \<Rightarrow> Some (Inl x)
      | Inr p \<Rightarrow>
          Some (Inr (p\<lparr>outlinks :=
            add_inout_link (del_inout_link (outlinks p) source_title (Some (fst e)))
              target_title (fst e)\<rparr>)))"

definition update_redirected_links ::
  "env \<Rightarrow> page \<Rightarrow> string option \<Rightarrow> string option \<Rightarrow> world \<Rightarrow> ((error + page) \<times> world) option" where
  "update_redirected_links E self new_redir old_redir w =
     (if old_redir = new_redir then Some (Inr self, w)
      else
        (case (if truthy old_redir then get_by_title E w (the old_redir) True else Some (Inr self)) of
           None \<Rightarrow> None
         | Some (Inl e) \<Rightarrow> Some (Inl e, w)
         | Some (Inr source) \<Rightarrow>
             (if inlinks source = [] then Some (Inr self, w)
              else
                (case (if truthy new_redir then get_by_title E w (the new_redir) True else Some (Inr self)) of
                   None \<Rightarrow> None
                 | Some (Inl e) \<Rightarrow> Some (Inl e, w)
                 | Some (Inr target) \<Rightarrow>
                     (case map_res (retarget_outlink w (title source) (title target))
                             (edges (inlinks source)) of
                        None \<Rightarrow> None
                      | Some (Inl e) \<Rightarrow> Some (Inl e, w)
                      | Some (Inr linking) \<Rightarrow>
                          (let same = (\<not> truthy old_redir \<and> \<not> truthy new_redir);
                               source' = source\<lparr>inlinks := []\<rparr>;
                               target' = (if same then source'
                                          else target\<lparr>inlinks :=
                                            foldl (\<lambda>ls (r, ts). add_inout_links ls ts r)
                                              (inlinks target) (inlinks source)\<rparr>);
                               self' = (if \<not> truthy old_redir then source'
                                        else if \<not> truthy new_redir then target'
                                        else self)
                           in Some (Inr self', put_multi ([source', target'] @ linking) w)))))))"

text \<open>\<open>_parse_outlinks\<close>: of the merged link dictionary (every value a list), the
  relations that name this page are dropped.\<close>

definition parse_outlinks :: "env \<Rightarrow> page \<Rightarrow> links" where
  "parse_outlinks E self = filter (\<lambda>(k, v). title self \<notin> set v) (merged_links E self)"

text \<open>\<open>list({WikiPage.get_by_title(t, follow_redirect=True).title for t in titles})\<close>.\<close>

definition resolve_titles :: "env \<Rightarrow> world \<Rightarrow> rel \<times> title list \<Rightarrow> (error + rel \<times> title list) option" where
  "resolve_titles E w rt =
     (case map_res (\<lambda>t. get_by_title E w t True) (snd rt) of
        None \<Rightarrow> None
      | Some (Inl e) \<Rightarrow> Some (Inl e)
      | Some (Inr ps) \<Rightarrow> Some (Inr (fst rt, remdups (map title ps))))"

text \<open>The difference of two link dictionaries as \<open>update_links\<close> computes it: a
  relation that the other dictionary lacks keeps its list, otherwise the titles of the
  other dictionary are taken out.\<close>

definition links_minus :: "links \<Rightarrow> links \<Rightarrow> links" where
  "links_minus a b =
     map (\<lambda>(r, ts). (r, case map_of b r of
                           None \<Rightarrow> ts
                         | Some ts' \<Rightarrow> remdups (filter (\<lambda>t. t \<notin> set ts') ts))) a"

text \<open>\<open>update_links\<close>: the redirect step, the new outlinks, the added and removed
  edges (with a read restriction nothing is added and all stored outlinks count as
  removed), the inlinks of the targets, and last the outlinks of this page.\<close>

definition update_links ::
  "env \<Rightarrow> page \<Rightarrow> string option \<Rightarrow> string option \<Rightarrow> world \<Rightarrow> ((error + page) \<times> world) option" where
  "update_links E self old_redir new_redir w =
     (case update_redirected_links E self new_redir old_redir w of
        None \<Rightarrow> None
      | Some (Inl e, w1) \<Rightarrow> Some (Inl e, w1)
      | Some (Inr self1, w1) \<Rightarrow>
          (let cur_outlinks = outlinks self1 in
           case map_res (resolve_titles E w1) (parse_outlinks E self1) of
             None \<Rightarrow> None
           | Some (Inl e) \<Rightarrow> Some (Inl e, w1)
           | Some (Inr new_outlinks) \<Rightarrow>
               (let added_outlinks = (if acl_read self1 \<noteq> [] then []
                                      else links_minus new_outlinks cur_outlinks);
                    removed_outlinks = (if acl_read self1 \<noteq> [] then cur_outlinks
                                        else links_minus cur_outlinks new_outlinks)
                in case update_inlinks E (title self1) added_outlinks removed_outlinks w1 of
                     None \<Rightarrow> None
                   | Some (Inl e, w2) \<Rightarrow> Some (Inl e, w2)
                   | Some (Inr u, w2) \<Rightarrow>
                       (let self2 = self1\<lparr>outlinks := map (\<lambda>(r, ts). (r, sort ts)) new_outlinks\<rparr>
                        in Some (Inr (self2\<lparr>has_key := True\<rparr>), put self2 w2)))))"

section \<open>Publication series\<close>

text \<open>\<open>get_posts_of(title, index, count)\<close>: the stored pages published to the series,
  latest first, one page of \<open>count\<close> entries.\<close>

definition get_posts_of :: "world \<Rightarrow> string \<Rightarrow> nat \<Rightarrow> nat \<Rightarrow> page list" where
  "get_posts_of w t index count =
     take count (drop (index * count)
       (rev (sort_key (\<lambda>p. the (published_at p))
          (filter (\<lambda>p. published_to p = Some t \<and> published_at p \<noteq> None)
             (map snd (store w))))))"

text \<open>\<open>_publish(title, save)\<close>: nothing changes when the page is already published
  to the series; otherwise the latest post of the series gets this page as its newer
  neighbour and is written.\<close>

definition publish :: "page \<Rightarrow> string \<Rightarrow> bool \<Rightarrow> world \<Rightarrow> page \<times> world" where
  "publish self t save w =
     (if published_at self \<noteq> None \<and> published_to self = Some t then (self, w)
      else
        (let (self1, w1) =
               (case get_posts_of w t 0 1 of
                  [] \<Rightarrow> (self, w)
                | latest # _ \<Rightarrow>
                    (self\<lparr>older_title := Some (title latest)\<rparr>,
                     put (latest\<lparr>newer_title := Some (title self)\<rparr>) w));
             self2 = self1\<lparr>published_to := Some t, published_at := Some (clock w)\<rparr>
         in (self2, if save then put self2 w1 else w1)))"

text \<open>\<open>get_by_title\<close> of an optional title: \<open>None\<close> gives \<open>None\<close>.\<close>

definition get_page_opt :: "world \<Rightarrow> title option \<Rightarrow> error + page option" where
  "get_page_opt w t =
     (case t of
        None \<Rightarrow> Inr None
      | Some t' \<Rightarrow> (case get_page w t' of Inl e \<Rightarrow> Inl e | Inr p \<Rightarrow> Inr (Some p)))"

text \<open>\<open>_unpublish(save)\<close>: the neighbours in the series are fetched and linked to each
  other, and the publication fields of this page are cleared.\<close>

definition unpublish :: "page \<Rightarrow> bool \<Rightarrow> world \<Rightarrow> (error + page) \<times> world" where
  "unpublish self save w =
     (if published_at self = None then (Inr self, w)
      else
        (case get_page_opt w (older_title self) of
           Inl e \<Rightarrow> (Inl e, w)
         | Inr older \<Rightarrow>
             (case get_page_opt w (newer_title self) of
                Inl e \<Rightarrow> (Inl e, w)
              | Inr newer \<Rightarrow>
                  (let w1 =
                         (case (older, newer) of
                            (Some older', Some newer') \<Rightarrow>
                              put (older'\<lparr>newer_title := newer_title self\<rparr>)
                                (put (newer'\<lparr>older_title := older_title self\<rparr>) w)
                          | (Some older', None) \<Rightarrow> put (older'\<lparr>newer_title := None\<rparr>) w
                          | (None, Some newer') \<Rightarrow> put (newer'\<lparr>older_title := None\<rparr>) w
                          | (None, None) \<Rightarrow> w);
                       self1 = self\<lparr>published_at := None, published_to := None,
                                    older_title := None, newer_title := None\<rparr>
                   in (Inr self1, if save then put self1 w1 else w1)))))"

text \<open>\<open>_update_pub_state(new_md, old_md)\<close>.\<close>

definition update_pub_state :: "page \<Rightarrow> metadata \<Rightarrow> metadata \<Rightarrow> world \<Rightarrow> (error + page) \<times> world" where
  "update_pub_state self new_md old_md w =
     (case (map_of old_md ''pub'', map_of new_md ''pub'') of
        (Some pub_old_title, Some pub_new_title) \<Rightarrow>
          (if pub_old_title \<noteq> pub_new_title
           then (case unpublish self False w of
                   (Inl e, w1) \<Rightarrow> (Inl e, w1)
                 | (Inr self1, w1) \<Rightarrow>
                     (case publish self1 pub_new_title False w1 of
                        (self2, w2) \<Rightarrow> (Inr self2, w2)))
           else (case publish self pub_new_title False w of (self1, w1) \<Rightarrow> (Inr self1, w1)))
      | (None, Some pub_new_title) \<Rightarrow>
          (case publish self pub_new_title False w of (self1, w1) \<Rightarrow> (Inr self1, w1))
      | (_, None) \<Rightarrow> unpublish self False w)"

section \<open>The content pipeline\<close>

text \<open>\<open>acl.split(',') if acl else []\<close>.\<close>

definition split_acl :: "string \<Rightarrow> string list" where
  "split_acl acl = (if acl = [] then [] else split_on CHR '','' acl)"

text \<open>\<open>md.get(key, '')\<close>.\<close>

definition md_get :: "metadata \<Rightarrow> string \<Rightarrow> string" where
  "md_get md k = (case map_of md k of None \<Rightarrow> [] | Some v \<Rightarrow> v)"

text \<open>\<open>SchemaConverter.convert_prop(itemtype, pkey, pvalue)\<close> (lines 211 to 216 of
  \<^verbatim>\<open>src/schema.py\<close>): a raw value is one string or, for a repeated key, a list of
  strings, and each element of a list is converted on its own. The conversion of one
  string, \<open>_convert_prop\<close>, tries the types in the ranges of the property and falls back
  to \<open>InvalidProperty(itemtype, 'Invalid', pvalue)\<close>; the attempt of the types is the
  parameter \<open>conv\<close>.\<close>

datatype raw_value = Scalar string | Listed "string list"

definition convert_prop ::
  "(string \<Rightarrow> string \<Rightarrow> string \<Rightarrow> property) \<Rightarrow> string \<Rightarrow> string \<Rightarrow> raw_value \<Rightarrow> dvalue" where
  "convert_prop conv itemtype pkey raw =
     (case raw of
        Listed pvs \<Rightarrow> Many (map (conv itemtype pkey) pvs)
      | Scalar pv \<Rightarrow> One (conv itemtype pkey pv))"

text \<open>The test on the new data in \<open>validate_new_content\<close>: \<open>type(value) ==
  schema.InvalidProperty\<close> looks at the dictionary value itself, and the type of a
  list-valued property is \<open>list\<close>.\<close>

fun is_invalid_value :: "dvalue \<Rightarrow> bool" where
  "is_invalid_value (One p) = (pclass p = InvalidProperty)"
| "is_invalid_value (Many ps) = False"

definition invalid_keys :: "data \<Rightarrow> string list" where
  "invalid_keys d = map fst (filter (\<lambda>(k, v). is_invalid_value v) d)"

text \<open>\<open>validate_new_content(base_revision, new_body, user)\<close>: the metadata, the two
  permission checks under the proposed restrictions, the redirect of the new body,
  the data, the revision number and the headings, in this order.\<close>

definition validate_new_content ::
  "env \<Rightarrow> world \<Rightarrow> page \<Rightarrow> int \<Rightarrow> string \<Rightarrow> user \<Rightarrow> (error + data \<times> metadata) option" where
  "validate_new_content E w self base_revision new_body u =
     (case parse_metadata E new_body of
        Inl e \<Rightarrow> Some (Inl e)
      | Inr new_md \<Rightarrow>
          (let acl_r = split_acl (md_get new_md ''read'');
               acl_w = split_acl (md_get new_md ''write'')
           in if \<not> can_read E self u (Some acl_r) (Some acl_w)
              then Some (Inl (ValueError ''Cannot restrict your permission''))
              else if \<not> can_write E self u (Some acl_r) (Some acl_w)
              then Some (Inl (ValueError ''Cannot restrict your permission''))
              else
                (case follow_redirect E w self (map_of new_md ''redirect'') of
                   None \<Rightarrow> None
                 | Some (Inl e) \<Rightarrow> Some (Inl e)
                 | Some (Inr target) \<Rightarrow>
                     (case map_of new_md ''schema'' of
                        None \<Rightarrow> Some (Inl (KeyError ''schema''))
                      | Some itemtype \<Rightarrow>
                          (case parse_data E (title self) new_body itemtype of
                             Inl e \<Rightarrow> Some (Inl e)
                           | Inr new_data \<Rightarrow>
                               (if invalid_keys new_data \<noteq> []
                                then Some (Inl (ValueError (''Invalid schema data: ''
                                                   @ join '', '' (invalid_keys new_data))))
                                else if revision self < base_revision
                                then Some (Inl (ValueError (''Invalid revision number: ''
                                                   @ string_of_int base_revision)))
                                else (case toc_invalid E new_body of
                                        Some reason \<Rightarrow> Some (Inl (ValueError reason))
                                      | None \<Rightarrow> Some (Inr (new_data, new_md)))))))))"

text \<open>\<open>_merge_if_needed(base_revision, new_body)\<close>: with the current revision as base
  the new body is returned as it is. Otherwise the revision record of the base is
  looked up (a miss fails at \<open>.body\<close> of \<open>None\<close>), the three texts are merged, which
  \<open>merge_log\<close> records, and a merged text with conflict markers is raised as
  \<open>ConflictError('Conflicted', base, new_body, merged)\<close>.\<close>

definition merge_if_needed :: "env \<Rightarrow> page \<Rightarrow> int \<Rightarrow> string \<Rightarrow> world \<Rightarrow> (error + string) \<times> world" where
  "merge_if_needed E self base_revision new_body w =
     (if revision self = base_revision then (Inr new_body, w)
      else
        (case find (\<lambda>r. rev_title r = title self \<and> rev_revision r = base_revision) (revisions w) of
           None \<Rightarrow> (Inl AttributeError, w)
         | Some r \<Rightarrow>
             (let base = rev_body r;
                  merged = merge3 E base (body self) new_body;
                  w1 = w\<lparr>merge_log := merge_log w @ [(base, body self, new_body)]\<rparr>
              in if conflict_markers E merged > 0
                 then (Inl (ConflictError ''Conflicted'' base new_body merged), w1)
                 else (Inr merged, w1))))"

text \<open>\<open>try: old = self.metadata.copy() except ValueError: old = {}\<close>, and the same for
  the data: a \<open>ValueError\<close> gives the empty dictionary, any other error is raised.\<close>

definition or_empty :: "error + ('k \<times> 'v) list \<Rightarrow> error + ('k \<times> 'v) list" where
  "or_empty r = (case r of Inl (ValueError m) \<Rightarrow> Inr [] | _ \<Rightarrow> r)"

text \<open>The revision record written after an accepted edit.\<close>

definition revision_of :: "page \<Rightarrow> wiki_page_revision" where
  "revision_of p =
     \<lparr>rev_title = title p, rev_body = body p, rev_created_at = updated_at p,
      rev_revision = revision p, rev_comment = comment p, rev_modifier = modifier p,
      rev_acl_read = acl_read p, rev_acl_write = acl_write p\<rparr>"

text \<open>\<open>update_links_and_data\<close>: inline (\<open>update_links\<close>, then the data index) or
  handed to the queue with the page as it is now.\<close>

definition update_links_and_data ::
  "env \<Rightarrow> page \<Rightarrow> string option \<Rightarrow> string option \<Rightarrow> data \<Rightarrow> data \<Rightarrow> bool \<Rightarrow> world \<Rightarrow>
     ((error + page) \<times> world) option" where
  "update_links_and_data E self old_redir new_redir old_data new_data dont_defer w =
     (if dont_defer
      then (case update_links E self old_redir new_redir w of
              None \<Rightarrow> None
            | Some (Inl e, w1) \<Rightarrow> Some (Inl e, w1)
            | Some (Inr self1, w1) \<Rightarrow>
                Some (Inr self1, w1\<lparr>index_log := index_log w1 @ [(title self1, old_data, new_data)]\<rparr>))
      else Some (Inr self,
                 w\<lparr>tasks := tasks w @ [UpdateLinks self old_redir new_redir,
                                        UpdateIndex (title self) old_data new_data]\<rparr>))"

text \<open>\<open>_update_content_all\<close>. An unchanged body without the force flag returns
  \<open>False\<close> at once. Validation and merge come before any write. Then the fields of
  the page are set, the publication state is updated, the revision number and the
  update time are advanced, the page is written, a revision record is added, and the
  links and the data index are updated. A first revision clears the title cache. The
  result carries the page object as the call leaves it.\<close>

definition update_content_all ::
  "env \<Rightarrow> page \<Rightarrow> string \<Rightarrow> int \<Rightarrow> string \<Rightarrow> user \<Rightarrow> bool \<Rightarrow> bool \<Rightarrow> bool \<Rightarrow> world \<Rightarrow>
     ((error + bool \<times> page) \<times> world) option" where
  "update_content_all E self new_text base_revision cmt u force_update dont_create_rev dont_defer w =
     (if \<not> force_update \<and> body self = new_text then Some (Inr (False, self), w)
      else
        (case validate_new_content E w self base_revision new_text u of
           None \<Rightarrow> None
         | Some (Inl e) \<Rightarrow> Some (Inl e, w)
         | Some (Inr (new_data, new_md)) \<Rightarrow>
             (case merge_if_needed E self base_revision new_text w of
                (Inl e, w1) \<Rightarrow> Some (Inl e, w1)
              | (Inr new_body, w1) \<Rightarrow>
                  (case or_empty (parse_metadata E (body self)) of
                     Inl e \<Rightarrow> Some (Inl e, w1)
                   | Inr old_md \<Rightarrow>
                       (case or_empty (data_of E self) of
                          Inl e \<Rightarrow> Some (Inl e, w1)
                        | Inr old_data \<Rightarrow>
                            (case map_of new_md ''schema'' of
                               None \<Rightarrow> Some (Inl (KeyError ''schema''), w1)
                             | Some itemtype \<Rightarrow>
                                 (case get_itemtype_path E itemtype of
                                    None \<Rightarrow> None
                                  | Some (Inl e) \<Rightarrow> Some (Inl e, w1)
                                  | Some (Inr path) \<Rightarrow>
                                      (case update_pub_state
                                              (self\<lparr>body := new_body, modifier := u,
                                                    description := make_description E new_body,
                                                    acl_read := md_get new_md ''read'',
                                                    acl_write := md_get new_md ''write'',
                                                    comment := cmt, itemtype_path := path\<rparr>)
                                              new_md old_md w1 of
                                         (Inl e, w2) \<Rightarrow> Some (Inl e, w2)
                                       | (Inr self1, w2) \<Rightarrow>
                                           (let self2 = self1\<lparr>revision :=
                                                  (if dont_create_rev then revision self1
                                                   else revision self1 + 1)\<rparr>;
                                                self3 = (if force_update then self2
                                                         else self2\<lparr>updated_at := Some (clock w)\<rparr>);
                                                self4 = self3\<lparr>has_key := True\<rparr>;
                                                w3 = put self3 w2;
                                                w4 = (if dont_create_rev then w3
                                                      else w3\<lparr>revisions := revisions w3 @ [revision_of self4]\<rparr>)
                                            in case update_links_and_data E self4
                                                      (map_of old_md ''redirect'') (map_of new_md ''redirect'')
                                                      old_data new_data dont_defer w4 of
                                                 None \<Rightarrow> None
                                               | Some (Inl e, w5) \<Rightarrow> Some (Inl e, w5)
                                               | Some (Inr self5, w5) \<Rightarrow>
                                                   Some (Inr (True, self5),
                                                         if revision self5 = 1
                                                         then w5\<lparr>titles_cache := []\<rparr>
                                                         else w5))))))))))"

text \<open>\<open>_update_content_checkbox\<close>: the index is read from the mode expression (no
  match fails at \<open>.group\<close> of \<open>None\<close>), the chosen box of the stored body becomes
  \<open>[x]\<close> where the content is \<open>1\<close> and \<open>[ ]\<close> otherwise, and the result goes through
  \<open>_update_content_all\<close>.\<close>

definition update_content_checkbox ::
  "env \<Rightarrow> page \<Rightarrow> string \<Rightarrow> int \<Rightarrow> string \<Rightarrow> user \<Rightarrow> bool \<Rightarrow> bool \<Rightarrow> bool \<Rightarrow> string \<Rightarrow> world \<Rightarrow>
     ((error + bool \<times> page) \<times> world) option" where
  "update_content_checkbox E self content base_revision cmt u force_update dont_create_rev dont_defer e w =
     (case parse_index ''checkbox'' e of
        None \<Rightarrow> Some (Inl AttributeError, w)
      | Some index \<Rightarrow>
          update_content_all E self
            (checkbox_sub 0 index (if content = ''1'' then ''[x]'' else ''[ ]'') (body self))
            base_revision cmt u force_update dont_create_rev dont_defer w)"

text \<open>\<open>_update_content_log\<close>: the same with the log marker.\<close>

definition update_content_log ::
  "env \<Rightarrow> page \<Rightarrow> string \<Rightarrow> int \<Rightarrow> string \<Rightarrow> user \<Rightarrow> bool \<Rightarrow> bool \<Rightarrow> bool \<Rightarrow> string \<Rightarrow> world \<Rightarrow>
     ((error + bool \<times> page) \<times> world) option" where
  "update_content_log E self content base_revision cmt u force_update dont_create_rev dont_defer e w =
     (case parse_index ''log'' e of
        None \<Rightarrow> Some (Inl AttributeError, w)
      | Some index \<Rightarrow>
          update_content_all E self
            (join [LF] (log_sub 0 index content (split_on LF (body self))))
            base_revision cmt u force_update dont_create_rev dont_defer w)"

text \<open>\<open>update_content\<close>: line ends are normalised first, then the mode expression
  selects the edit.\<close>

definition update_content ::
  "env \<Rightarrow> page \<Rightarrow> string \<Rightarrow> int \<Rightarrow> string \<Rightarrow> user \<Rightarrow> bool \<Rightarrow> bool \<Rightarrow> bool \<Rightarrow> string \<Rightarrow> world \<Rightarrow>
     ((error + bool \<times> page) \<times> world) option" where
  "update_content E self content base_revision cmt u force_update dont_create_rev dont_defer partial w =
     (if partial = ''all''
      then update_content_all E self (replace_crlf content) base_revision cmt u
             force_update dont_create_rev dont_defer w
      else if starts_with ''checkbox'' partial
      then update_content_checkbox E self (replace_crlf content) base_revision cmt u
             force_update dont_create_rev dont_defer partial w
      else if starts_with ''log'' partial
      then update_content_log E self (replace_crlf content) base_revision cmt u
             force_update dont_create_rev dont_defer partial w
      else Some (Inl (ValueError (''Invalid partial expression: '' @ partial)), w))"

section \<open>Related links\<close>

text \<open>The related-score table of a page is a dictionary from titles to Python floats. The
  scores are modelled as rationals: the walk below starts from \<open>0.1\<close> and only halves,
  which changes the exponent of a binary float and nothing else, so the ratios between the
  recorded scores and the start score are those of the rationals. The sum and the
  quotients in \<open>normalize_related_links\<close> are rounded in the source and exact here. The
  table is an association list in the order of insertion; the order in which a Python
  dictionary is listed is not specified, so which of several entries with the same score
  survive the cut to thirty is open in the source and fixed by the list order here.

  \<open>normalize_related_links()\<close>: the entries for titles that are direct links of the page
  are dropped, of more than thirty entries the thirty last in ascending order of score
  are kept, and the scores are divided by their sum where the sum exceeds \<open>1.0\<close>.\<close>

definition normalize_related_links :: "page \<Rightarrow> page" where
  "normalize_related_links self =
     (let direct_links = set (all_titles (outlinks self) @ all_titles (inlinks self));
          related = filter (\<lambda>(k, v). k \<notin> direct_links) (related_links self);
          kept = (if length related > 30
                  then drop (length related - 30) (sort_key snd related)
                  else related);
          total = sum_list (map snd kept)
      in self\<lparr>related_links :=
                (if total > 1 then map (\<lambda>(k, v). (k, v / total)) kept else kept)\<rparr>)"

text \<open>\<open>next_page.related_links[start_page.title] += next_page_score\<close>, after the entry
  has been set to \<open>0.0\<close> where it was missing.\<close>

definition add_score :: "title \<Rightarrow> rat \<Rightarrow> (title \<times> rat) list \<Rightarrow> (title \<times> rat) list" where
  "add_score t s table =
     AList.update t ((case map_of table t of None \<Rightarrow> 0 | Some v \<Rightarrow> v) + s) table"

text \<open>\<open>_update_related_links(start_page, page, score, score_table, distance)\<close>. The
  dictionary \<open>score_table\<close> is mutated in place and is returned here beside the flag.
  \<open>random.choice(links)\<close> is the element at an index that the parameter \<open>rnd\<close> supplies
  for the hop. The number of remaining hops is a natural number: the only caller passes
  the default of five. The target is resolved through redirects, which may fail and may
  not return; the page that \<open>get_by_title\<close> delivers is a copy of the stored one. A target
  with a revision takes the origin into its own table, is normalised and written; the
  walk goes on from the target with the halved score, and the answer of the inner call is
  dropped.\<close>

fun update_related_links_walk ::
  "env \<Rightarrow> (nat \<Rightarrow> nat) \<Rightarrow> page \<Rightarrow> page \<Rightarrow> rat \<Rightarrow> (title \<times> rat) list \<Rightarrow> nat \<Rightarrow> world
     \<Rightarrow> ((error + bool \<times> (title \<times> rat) list) \<times> world) option" where
  "update_related_links_walk E rnd start_page page score score_table 0 w =
     Some (Inr (False, score_table), w)"
| "update_related_links_walk E rnd start_page page score score_table (Suc distance) w =
     (let links = filter (\<lambda>l. l \<noteq> title start_page) (all_titles (outlinks page))
      in if length links = 0 then Some (Inr (False, score_table), w)
         else
           (case get_by_title E w (links ! (rnd (Suc distance) mod length links)) True of
              None \<Rightarrow> None
            | Some (Inl e) \<Rightarrow> Some (Inl e, w)
            | Some (Inr next_page) \<Rightarrow>
                (let next_link = title next_page;
                     next_score = score * (1 / 2);
                     score_table1 = AList.update next_link next_score score_table;
                     next_page1 =
                       (if revision next_page > 0
                        then normalize_related_links
                               (next_page\<lparr>related_links :=
                                  add_score (title start_page) next_score (related_links next_page)\<rparr>)
                        else next_page);
                     w1 = (if revision next_page > 0 then put next_page1 w else w)
                 in case update_related_links_walk E rnd start_page next_page1 next_score
                           score_table1 distance w1 of
                      None \<Rightarrow> None
                    | Some (Inl e, w2) \<Rightarrow> Some (Inl e, w2)
                    | Some (Inr (u, score_table2), w2) \<Rightarrow> Some (Inr (True, score_table2), w2))))"

text \<open>\<open>update_related_links(max_distance=5)\<close>: the walk starts at the page itself with the
  score \<open>0.1\<close> and the page's own table; an updated table is normalised.\<close>

definition update_related_links ::
  "env \<Rightarrow> (nat \<Rightarrow> nat) \<Rightarrow> page \<Rightarrow> nat \<Rightarrow> world \<Rightarrow> ((error + bool \<times> page) \<times> world) option" where
  "update_related_links E rnd self max_distance w =
     (if length (outlinks self) = 0 then Some (Inr (False, self), w)
      else
        (case update_related_links_walk E rnd self self (1 / 10) (related_links self)
                max_distance w of
           None \<Rightarrow> None
         | Some (Inl e, w1) \<Rightarrow> Some (Inl e, w1)
         | Some (Inr (updated, score_table), w1) \<Rightarrow>
             if \<not> updated then Some (Inr (False, self\<lparr>related_links := score_table\<rparr>), w1)
             else Some (Inr (True, normalize_related_links (self\<lparr>related_links := score_table\<rparr>)),
                        w1)))"

section \<open>Fixtures\<close>

text \<open>A metadata parser for the examples: a body that starts with \<open>.redirect\<close> and a
  blank names its redirect target, and every body has the schema \<open>Article\<close>.\<close>

definition toy_metadata :: "string \<Rightarrow> error + metadata" where
  "toy_metadata b =
     Inr ((if take 10 b = ''.redirect '' then [(''redirect'', drop 10 b)] else [])
          @ [(''schema'', ''Article'')])"

definition toy_env :: env where
  "toy_env =
     \<lparr>parse_metadata = toy_metadata,
      parse_data = (\<lambda>t b s. Inr []),
      data_of = (\<lambda>p. Inr []),
      can_read = (\<lambda>p u r w. acl_read p = [] \<or> u = Some (acl_read p)),
      can_write = (\<lambda>p u r w. True),
      toc_invalid = (\<lambda>b. None),
      make_description = take 20,
      merge3 = (\<lambda>base a b. b),
      conflict_markers = (\<lambda>s. 0),
      supertypes = (\<lambda>t. if t = ''Article'' then Some [] else None),
      merged_links = (\<lambda>p. []),
      query_titles = (\<lambda>n v. Inr (if n = Str ''schema'' \<and> v = Str ''Article/'' then {''A'', ''B'', ''C''}
                             else if n = Str ''author'' \<and> v = Str ''X'' then {''B'', ''C'', ''D''}
                             else {})),
      parse_wikiquery = (\<lambda>q. Inl (ValueError q)),
      repr_list = (\<lambda>xs. ''[...]'')\<rparr>"

definition stored_page :: "title \<Rightarrow> string \<Rightarrow> page" where
  "stored_page t b = (new_page t)\<lparr>body := b, revision := 1, has_key := True\<rparr>"

definition empty_world :: world where
  "empty_world =
     \<lparr>store = [], revisions = [], tasks = [], index_log = [], merge_log = [], clock = 0,
      titles_cache = [], wikiquery_cache = []\<rparr>"

text \<open>Three pages: \<open>A\<close> redirects to \<open>B\<close>, \<open>B\<close> to \<open>C\<close> and \<open>C\<close> back to \<open>B\<close>.\<close>

definition cycle_world :: world where
  "cycle_world = empty_world\<lparr>store :=
     [(''A'', stored_page ''A'' ''.redirect B''),
      (''B'', stored_page ''B'' ''.redirect C''),
      (''C'', stored_page ''C'' ''.redirect B'')]\<rparr>"




text \<open>A merge that always reports a conflict, and a page \<open>P\<close> at revision 2 whose
  first revision is on record.\<close>

definition conflict_env :: env where
  "conflict_env = toy_env\<lparr>
     merge3 := (\<lambda>base a b. ''<<<<<<<'' @ a @ ''======='' @ b @ ''>>>>>>>''),
     conflict_markers := (\<lambda>s. if take 7 s = ''<<<<<<<'' then 1 else 0)\<rparr>"

definition edited_page :: page where
  "edited_page = (stored_page ''P'' ''mine'')\<lparr>revision := 2\<rparr>"

definition edited_world :: world where
  "edited_world = empty_world\<lparr>
     store := [(''P'', edited_page)],
     revisions := [revision_of ((stored_page ''P'' ''base'')\<lparr>revision := 1\<rparr>),
                   revision_of edited_page]\<rparr>"

text \<open>A conversion of one string in which \<open>??\<close> fits no type of the property and every
  other string is a text; structured data in which the property \<open>author\<close> has the list
  value that \<open>convert_prop\<close> builds for a repeated key, one of its elements being an
  \<open>InvalidProperty\<close>; and data in which two properties are invalid themselves.\<close>

definition toy_convert :: "string \<Rightarrow> string \<Rightarrow> string \<Rightarrow> property" where
  "toy_convert itemtype pkey pv =
     (if pv = ''??''
      then \<lparr>pclass = InvalidProperty, p_itemtype = itemtype, ptype = ''Invalid'', pvalue = pv\<rparr>
      else \<lparr>pclass = TextProperty, p_itemtype = itemtype, ptype = ''Text'', pvalue = pv\<rparr>)"



definition list_data_env :: env where
  "list_data_env = toy_env\<lparr>parse_data :=
     (\<lambda>t b s. if b = ''authors''
              then Inr [(''author'', convert_prop toy_convert s ''author'' (Listed [''??'', ''Ann'']))]
              else if b = ''single''
              then Inr [(''author'', convert_prop toy_convert s ''author'' (Scalar ''??'')),
                        (''name'', convert_prop toy_convert s ''name'' (Scalar ''Ann'')),
                        (''isbn'', convert_prop toy_convert s ''isbn'' (Scalar ''??''))]
              else Inr [])\<rparr>"

text \<open>Parameters for the link examples: a body that starts with \<open>.read bob\<close> restricts
  reading to \<open>bob\<close>, and every page links to \<open>B\<close> under the relation
  \<open>Article/relatedTo\<close>.\<close>

definition link_metadata :: "string \<Rightarrow> error + metadata" where
  "link_metadata b =
     Inr ((if take 10 b = ''.read bob '' then [(''read'', ''bob'')] else [])
          @ [(''schema'', ''Article'')])"

definition link_env :: env where
  "link_env = toy_env\<lparr>
     parse_metadata := link_metadata,
     can_read := (\<lambda>p u r w. True),
     merged_links := (\<lambda>p. [(''Article/relatedTo'', [''B''])])\<rparr>"

text \<open>The page \<open>A\<close> and the state after its first edit, which restricts reading to
  \<open>bob\<close>, and after its second edit, which lifts the restriction; both bodies link to
  \<open>B\<close>.\<close>

definition restricted_A :: page where
  "restricted_A =
     \<lparr>title = ''A'', body = ''.read bob see B'', revision = 1,
      description = ''.read bob see B'', comment = [], modifier = Some ''bob'',
      acl_read = ''bob'', acl_write = [], inlinks = [],
      outlinks = [(''Article/relatedTo'', [''B''])], related_links = [],
      itemtype_path = ''Article/'', updated_at = Some 0, published_at = None,
      published_to = None, older_title = None, newer_title = None, has_key = True\<rparr>"

definition restricted_world :: world where
  "restricted_world = empty_world\<lparr>
     store := [(''A'', restricted_A)],
     revisions := [revision_of restricted_A],
     index_log := [(''A'', [], [])]\<rparr>"

definition public_A :: page where
  "public_A = restricted_A\<lparr>body := ''see B'', revision := 2, description := ''see B'',
                            acl_read := []\<rparr>"

definition public_world :: world where
  "public_world = empty_world\<lparr>
     store := [(''A'', public_A)],
     revisions := [revision_of restricted_A, revision_of public_A],
     index_log := [(''A'', [], []), (''A'', [], [])]\<rparr>"

text \<open>Pages for the related-link walk: \<open>A\<close> links to \<open>B\<close>, the stored page \<open>B\<close> links to
  \<open>C\<close>, and \<open>C\<close> is not stored. Every draw of the walk is the first link.\<close>

definition walk_A :: page where
  "walk_A = (stored_page ''A'' ''a'')\<lparr>outlinks := [(''Article/relatedTo'', [''B''])]\<rparr>"

definition walk_B :: page where
  "walk_B = (stored_page ''B'' ''b'')\<lparr>inlinks := [(''Article/relatedTo'', [''A''])],
                                       outlinks := [(''Article/relatedTo'', [''C''])]\<rparr>"

definition walk_world :: world where
  "walk_world = empty_world\<lparr>store := [(''A'', walk_A), (''B'', walk_B)]\<rparr>"

definition first_link :: "nat \<Rightarrow> nat" where
  "first_link hop = 0"

section \<open>Redirect resolution\<close>

lemma get_page_cycle_B: "get_page cycle_world ''B'' = Inr (stored_page ''B'' ''.redirect C'')"
  by (simp add: get_page_def cycle_world_def empty_world_def)

lemma get_page_cycle_C: "get_page cycle_world ''C'' = Inr (stored_page ''C'' ''.redirect B'')"
  by (simp add: get_page_def cycle_world_def empty_world_def)

lemma toy_redirect_B: "parse_metadata toy_env (body (stored_page ''B'' ''.redirect C'')) = Inr [(''redirect'', ''C''), (''schema'', ''Article'')]"
  by (simp add: toy_env_def toy_metadata_def stored_page_def new_page_def)

lemma toy_redirect_C: "parse_metadata toy_env (body (stored_page ''C'' ''.redirect B'')) = Inr [(''redirect'', ''B''), (''schema'', ''Article'')]"
  by (simp add: toy_env_def toy_metadata_def stored_page_def new_page_def)

lemma follow_redirect_loop_cycle:
  "follow_redirect_loop E w trail p r = Some y \<Longrightarrow>
   \<not> (E = toy_env \<and> w = cycle_world \<and> trail = {''A''} \<and> r = None \<and>
      (p = stored_page ''B'' ''.redirect C'' \<or> p = stored_page ''C'' ''.redirect B''))"
proof (rule follow_redirect_loop.raw_induct
    [where P = "\<lambda>E w trail p r y. \<not> (E = toy_env \<and> w = cycle_world \<and> trail = {''A''} \<and> r = None \<and>
      (p = stored_page ''B'' ''.redirect C'' \<or> p = stored_page ''C'' ''.redirect B''))"], goal_cases)
  case (1 f E w trail p r y)
  note IH = "1"(2) and unfolded = "1"(3)
  show ?case
  proof
    assume a: "E = toy_env \<and> w = cycle_world \<and> trail = {''A''} \<and> r = None \<and>
      (p = stored_page ''B'' ''.redirect C'' \<or> p = stored_page ''C'' ''.redirect B'')"
    then consider "p = stored_page ''B'' ''.redirect C''" | "p = stored_page ''C'' ''.redirect B''"
      by blast
    then show False
    proof cases
      case 1
      with a unfolded have "f toy_env cycle_world {''A''} (stored_page ''C'' ''.redirect B'') None = Some y"
        by (simp add: toy_redirect_B get_page_cycle_C)
      from IH[OF this] show False by simp
    next
      case 2
      with a unfolded have "f toy_env cycle_world {''A''} (stored_page ''B'' ''.redirect C'') None = Some y"
        by (simp add: toy_redirect_C get_page_cycle_B)
      from IH[OF this] show False by simp
    qed
  qed
qed

text \<open>
  C6. Redirect resolution is claimed to track the titles visited so far and to fail
  with a circular-redirect error whenever a title repeats, so that it never loops
  forever, also on a cycle that does not pass through the starting page. In the code
  \<open>trail\<close> holds the starting title only: the loop never adds to it. Started at
  \<open>A\<close>, whose chain is \<open>A \<rightarrow> B \<rightarrow> C \<rightarrow> B\<close>, the call does not
  return: no error is raised and no page is produced.
\<close>

theorem follow_redirect_cycle_never_returns:
  "follow_redirect toy_env cycle_world (stored_page ''A'' ''.redirect B'') None = None"
proof (cases "follow_redirect toy_env cycle_world (stored_page ''A'' ''.redirect B'') None")
  case None
  then show ?thesis .
next
  case (Some y)
  have "follow_redirect toy_env cycle_world (stored_page ''A'' ''.redirect B'') None
        = follow_redirect_loop toy_env cycle_world {''A''} (stored_page ''B'' ''.redirect C'') None"
    unfolding follow_redirect_def
    by (subst follow_redirect_loop.simps)
       (simp add: toy_env_def toy_metadata_def stored_page_def new_page_def get_page_def
          cycle_world_def empty_world_def)
  with Some have "follow_redirect_loop toy_env cycle_world {''A''} (stored_page ''B'' ''.redirect C'') None = Some y"
    by simp
  from follow_redirect_loop_cycle[OF this] show ?thesis by simp
qed

section \<open>Wikiquery evaluation\<close>

















section \<open>Frame properties of the store operations\<close>

lemma put_frame [simp]:
  "merge_log (put p w) = merge_log w" "revisions (put p w) = revisions w"
  "tasks (put p w) = tasks w"
  by (simp_all add: put_def)

lemma put_lookup [simp]:
  "map_of (store (put p w)) k = (if k = title p then Some (p\<lparr>has_key := True\<rparr>) else map_of (store w) k)"
  by (simp add: put_def update_conv')

lemma put_multi_frame [simp]:
  "merge_log (put_multi ps w) = merge_log w \<and> revisions (put_multi ps w) = revisions w
   \<and> tasks (put_multi ps w) = tasks w"
  unfolding put_multi_def by (induction ps arbitrary: w) simp_all

lemma delete_multi_frame [simp]:
  "merge_log (delete_multi ts w) = merge_log w" "revisions (delete_multi ts w) = revisions w"
  "tasks (delete_multi ts w) = tasks w"
  by (simp_all add: delete_multi_def)

lemma update_inlinks_frame:
  "update_inlinks E t added removed w = Some (r, w') \<Longrightarrow>
   merge_log w' = merge_log w \<and> revisions w' = revisions w \<and> tasks w' = tasks w"
  by (auto simp: update_inlinks_def Let_def split: option.splits sum.splits if_splits)

lemma update_redirected_links_frame:
  "update_redirected_links E self nr orr w = Some (r, w') \<Longrightarrow>
   merge_log w' = merge_log w \<and> revisions w' = revisions w \<and> tasks w' = tasks w"
  by (auto simp: update_redirected_links_def Let_def split: option.splits sum.splits if_splits)

lemma update_redirected_links_self:
  "update_redirected_links E self nr orr w = Some (Inr self1, w') \<Longrightarrow>
   body self1 = body self \<and> title self1 = title self \<and> revision self1 = revision self"
  by (auto simp: update_redirected_links_def Let_def split: option.splits sum.splits if_splits)

lemma update_links_frame:
  "update_links E self orr nr w = Some (r, w') \<Longrightarrow>
   merge_log w' = merge_log w \<and> revisions w' = revisions w \<and> tasks w' = tasks w"
  by (auto simp: update_links_def Let_def split: option.splits sum.splits if_splits prod.splits
      dest!: update_redirected_links_frame update_inlinks_frame)

lemma update_links_self:
  "update_links E self orr nr w = Some (Inr self1, w') \<Longrightarrow>
   body self1 = body self \<and> title self1 = title self \<and> revision self1 = revision self \<and>
   map_option body (map_of (store w') (title self)) = Some (body self)"
  by (auto simp: update_links_def Let_def split: option.splits sum.splits if_splits prod.splits
      dest!: update_redirected_links_self)


lemma publish_frame:
  "publish self t save w = (self1, w') \<Longrightarrow>
   merge_log w' = merge_log w \<and> revisions w' = revisions w \<and> tasks w' = tasks w \<and>
   body self1 = body self \<and> title self1 = title self \<and> revision self1 = revision self"
  by (auto simp: publish_def Let_def split: if_splits list.splits prod.splits)

lemma unpublish_frame:
  "unpublish self save w = (r, w') \<Longrightarrow>
   merge_log w' = merge_log w \<and> revisions w' = revisions w \<and> tasks w' = tasks w"
  by (auto simp: unpublish_def Let_def split: if_splits sum.splits option.splits prod.splits)

lemma unpublish_self:
  "unpublish self save w = (Inr self1, w') \<Longrightarrow>
   body self1 = body self \<and> title self1 = title self \<and> revision self1 = revision self"
  by (auto simp: unpublish_def Let_def split: if_splits sum.splits option.splits prod.splits)

lemma update_pub_state_frame:
  "update_pub_state self new_md old_md w = (r, w') \<Longrightarrow>
   merge_log w' = merge_log w \<and> revisions w' = revisions w \<and> tasks w' = tasks w"
  by (auto simp: update_pub_state_def split: if_splits sum.splits option.splits prod.splits
      dest!: publish_frame unpublish_frame)

lemma update_pub_state_self:
  "update_pub_state self new_md old_md w = (Inr self1, w') \<Longrightarrow>
   body self1 = body self \<and> title self1 = title self \<and> revision self1 = revision self"
  by (auto simp: update_pub_state_def split: if_splits sum.splits option.splits prod.splits
      dest!: publish_frame unpublish_self)

lemma update_links_and_data_frame:
  "update_links_and_data E self orr nr od nd dd w = Some (r, w') \<Longrightarrow>
   merge_log w' = merge_log w \<and> revisions w' = revisions w"
  by (auto simp: update_links_and_data_def split: if_splits sum.splits option.splits prod.splits
      dest!: update_links_frame)

lemma update_links_and_data_self:
  "update_links_and_data E self orr nr od nd dd w = Some (Inr self1, w') \<Longrightarrow>
   map_option body (map_of (store w) (title self)) = Some (body self) \<Longrightarrow>
   body self1 = body self \<and> title self1 = title self \<and>
   map_option body (map_of (store w') (title self)) = Some (body self)"
  by (auto simp: update_links_and_data_def split: if_splits sum.splits option.splits prod.splits
      dest!: update_links_self)

lemma merge_if_needed_current:
  "revision self = base_revision \<Longrightarrow> merge_if_needed E self base_revision txt w = (Inr txt, w)"
  by (simp add: merge_if_needed_def)

text \<open>The shape of every run of \<open>_update_content_all\<close> that returns \<open>True\<close>.\<close>

lemma update_content_all_True:
  assumes "update_content_all E self txt base cmt u force dcr dd w = Some (Inr (True, p), w')"
  shows "\<exists>new_body w1 d md.
           validate_new_content E w self base txt u = Some (Inr (d, md)) \<and>
           merge_if_needed E self base txt w = (Inr new_body, w1) \<and>
           body p = new_body \<and> title p = title self \<and>
           map_option body (map_of (store w') (title self)) = Some new_body \<and>
           merge_log w' = merge_log w1"
proof -
  from assms have changed: "\<not> (\<not> force \<and> body self = txt)"
    by (auto simp: update_content_all_def)
  from assms changed obtain d md where v: "validate_new_content E w self base txt u = Some (Inr (d, md))"
    by (auto simp: update_content_all_def split: option.splits sum.splits)
  from assms changed v obtain new_body w1 where m: "merge_if_needed E self base txt w = (Inr new_body, w1)"
    by (auto simp: update_content_all_def split: option.splits sum.splits prod.splits)
  from assms changed v m obtain old_md where om: "or_empty (parse_metadata E (body self)) = Inr old_md"
    by (auto simp: update_content_all_def split: option.splits sum.splits prod.splits)
  from assms changed v m om obtain old_data where od: "or_empty (data_of E self) = Inr old_data"
    by (auto simp: update_content_all_def split: option.splits sum.splits prod.splits)
  from assms changed v m om od obtain itemtype where it: "map_of md ''schema'' = Some itemtype"
    by (auto simp: update_content_all_def split: option.splits sum.splits prod.splits)
  from assms changed v m om od it obtain path where pa: "get_itemtype_path E itemtype = Some (Inr path)"
    by (auto simp: update_content_all_def split: option.splits sum.splits prod.splits)
  define self0 where "self0 = self\<lparr>body := new_body, modifier := u,
      description := make_description E new_body, acl_read := md_get md ''read'',
      acl_write := md_get md ''write'', comment := cmt, itemtype_path := path\<rparr>"
  from assms changed v m om od it pa obtain self1 w2 where
    ps: "update_pub_state self0 md old_md w1 = (Inr self1, w2)"
    unfolding self0_def
    by (auto simp: update_content_all_def split: option.splits sum.splits prod.splits)
  define self3 where "self3 = (if force then self1\<lparr>revision := (if dcr then revision self1 else revision self1 + 1)\<rparr>
       else self1\<lparr>revision := (if dcr then revision self1 else revision self1 + 1), updated_at := Some (clock w)\<rparr>)"
  define w4 where "w4 = (if dcr then put self3 w2
       else (put self3 w2)\<lparr>revisions := revisions (put self3 w2) @ [revision_of (self3\<lparr>has_key := True\<rparr>)]\<rparr>)"
  from assms changed v m om od it pa ps obtain w5 where
    ul: "update_links_and_data E (self3\<lparr>has_key := True\<rparr>) (map_of old_md ''redirect'')
           (map_of md ''redirect'') old_data d dd w4 = Some (Inr p, w5)"
    and w': "w' = (if revision p = 1 then w5\<lparr>titles_cache := []\<rparr> else w5)"
    unfolding self0_def[symmetric] self3_def w4_def
    by (auto simp: update_content_all_def self0_def[symmetric] Let_def
        split: option.splits sum.splits prod.splits if_splits)
  from update_pub_state_self[OF ps] have s1: "body self1 = new_body" "title self1 = title self"
    by (simp_all add: self0_def)
  have s3: "body self3 = new_body" "title self3 = title self"
    using s1 by (simp_all add: self3_def)
  have st4: "map_option body (map_of (store w4) (title (self3\<lparr>has_key := True\<rparr>)))
               = Some (body (self3\<lparr>has_key := True\<rparr>))"
    by (simp add: w4_def)
  from update_links_and_data_self[OF ul st4] have
    r: "body p = new_body" "title p = title self"
       "map_option body (map_of (store w5) (title self)) = Some new_body"
    using s3 by simp_all
  from update_links_and_data_frame[OF ul] have "merge_log w5 = merge_log w4" by simp
  moreover have "merge_log w4 = merge_log w2" by (simp add: w4_def)
  moreover from update_pub_state_frame[OF ps] have "merge_log w2 = merge_log w1" by simp
  ultimately have ml: "merge_log w' = merge_log w1" using w' by simp
  have st: "map_option body (map_of (store w') (title self)) = Some new_body"
    using r(3) w' by simp
  show ?thesis using v m r(1,2) st ml by blast
qed


lemma update_content_all_False:
  "update_content_all E self txt base cmt u force dcr dd w = Some (Inr (False, p), w') \<Longrightarrow>
   p = self \<and> w' = w \<and> \<not> force \<and> body self = txt"
  by (auto simp: update_content_all_def Let_def
      split: option.splits sum.splits prod.splits if_splits)

lemma update_content_all_no_merge:
  assumes "revision self = base"
    and "update_content_all E self txt base cmt u force dcr dd w = Some (r, w')"
  shows "merge_log w' = merge_log w"
proof (cases "\<not> force \<and> body self = txt")
  case True
  then show ?thesis using assms(2) by (auto simp: update_content_all_def)
next
  case False
  note m = merge_if_needed_current[OF assms(1)]
  show ?thesis using assms(2) False
    by (auto simp: update_content_all_def m Let_def
        split: option.splits sum.splits prod.splits if_splits
        dest!: update_pub_state_frame update_links_and_data_frame)
qed

section \<open>Runs of the pipeline under the example parameters\<close>

lemma toy_no_redirect:
  "take 10 (body p) \<noteq> ''.redirect '' \<Longrightarrow> follow_redirect toy_env w p None = Some (Inr p)"
  unfolding follow_redirect_def
  by (subst follow_redirect_loop.simps) (simp add: toy_env_def toy_metadata_def)

lemma toy_validate:
  assumes "take 10 txt \<noteq> ''.redirect ''" and "take 10 (body self) \<noteq> ''.redirect ''"
    and "acl_read self = []" and "base \<le> revision self"
  shows "validate_new_content toy_env w self base txt u = Some (Inr ([], [(''schema'', ''Article'')]))"
proof -
  have md: "parse_metadata toy_env txt = Inr [(''schema'', ''Article'')]"
    using assms(1) by (simp add: toy_env_def toy_metadata_def)
  have rest: "can_read toy_env self u (Some []) (Some [])" "can_write toy_env self u (Some []) (Some [])"
    "parse_data toy_env (title self) txt ''Article'' = Inr []" "toc_invalid toy_env txt = None"
    using assms(3) by (simp_all add: toy_env_def)
  show ?thesis
    using assms(4)
    by (simp add: validate_new_content_def md rest toy_no_redirect[OF assms(2)] split_acl_def
        md_get_def invalid_keys_def)
qed

lemma toy_itemtype_path: "get_itemtype_path toy_env ''Article'' = Some (Inr ''Article/'')"
  by (simp add: get_itemtype_path_def itemtype_parts.simps toy_env_def)

lemma toy_edit_fresh:
  assumes "txt \<noteq> []" and "take 10 txt \<noteq> ''.redirect ''"
  shows "\<exists>p w'. update_content_all toy_env (new_page t) txt 0 [] None False False False empty_world
           = Some (Inr (True, p), w')"
proof -
  have v: "validate_new_content toy_env empty_world (new_page t) 0 txt None
             = Some (Inr ([], [(''schema'', ''Article'')]))"
    by (rule toy_validate) (simp_all add: assms new_page_def)
  have m: "merge_if_needed toy_env (new_page t) 0 txt empty_world = (Inr txt, empty_world)"
    by (simp add: merge_if_needed_def new_page_def)
  have o: "or_empty (parse_metadata toy_env (body (new_page t))) = Inr [(''schema'', ''Article'')]"
    "or_empty (data_of toy_env (new_page t)) = Inr []"
    by (simp_all add: or_empty_def toy_env_def toy_metadata_def new_page_def)
  have b: "body (new_page t) \<noteq> txt" using assms(1) by (auto simp: new_page_def)
  have np: "published_at (new_page t) = None" by (simp add: new_page_def)
  show ?thesis
    by (simp add: update_content_all_def v m o b np toy_itemtype_path update_pub_state_def
        unpublish_def update_links_and_data_def Let_def)
qed


section \<open>Line ends\<close>

lemma has_cr_crlf_Cons: "has_cr_crlf s \<Longrightarrow> has_cr_crlf (x # s)"
  by (cases s rule: has_cr_crlf.cases) auto

lemma replace_crlf_head:
  "replace_crlf (d # cs) = x # r \<Longrightarrow> x = LF \<Longrightarrow> d = LF \<or> (d = CR \<and> (\<exists>cs'. cs = LF # cs'))"
  by (cases cs) (auto split: if_splits)

lemma has_crlf_replace_crlf: "has_crlf (replace_crlf s) \<Longrightarrow> has_cr_crlf s"
proof (induction s rule: replace_crlf.induct)
  case (1 c d cs)
  show ?case
  proof (cases "c = CR \<and> d = LF")
    case True
    have "LF \<noteq> CR" by (simp add: LF_def CR_def)
    with True "1.prems" have "has_crlf (replace_crlf cs)"
      by (cases "replace_crlf cs") auto
    with "1.IH"(1) True have "has_cr_crlf cs" by simp
    then show ?thesis by (intro has_cr_crlf_Cons)
  next
    case False
    with "1.prems" have h: "has_crlf (c # replace_crlf (d # cs))" by simp
    have "replace_crlf (d # cs) \<noteq> []"
      by (cases cs) simp_all
    then obtain x r where xr: "replace_crlf (d # cs) = x # r"
      by (cases "replace_crlf (d # cs)") simp_all
    from h xr consider "c = CR \<and> x = LF" | "has_crlf (replace_crlf (d # cs))" by auto
    then show ?thesis
    proof cases
      case 1
      with replace_crlf_head[OF xr] False obtain cs' where "d = CR" "cs = LF # cs'" by auto
      with 1 show ?thesis by simp
    next
      case 2
      with "1.IH"(2) False have "has_cr_crlf (d # cs)" by simp
      then show ?thesis by (rule has_cr_crlf_Cons)
    qed
  qed
qed simp_all

section \<open>Whole-body edits\<close>

text \<open>
  C1 (as amended). For every page and every whole-body call to \<open>update_content\<close> whose
  stated base revision equals the page's current revision, the three-way merge is
  never invoked, whatever the call returns. When the call returns \<open>True\<close>, the body of
  the page and the body in the store equal the proposed text after the replacement of
  every carriage return and line feed pair by a line feed (\<open>replace_crlf\<close>); when it
  returns \<open>False\<close>, nothing has changed and the stored body already equals that text.
\<close>

theorem update_content_at_current_revision:
  assumes "base_revision = revision self"
    and "update_content E self content base_revision cmt u force dcr dd ''all'' w = Some (res, w')"
  shows "merge_log w' = merge_log w \<and>
         (\<forall>p. res = Inr (True, p) \<longrightarrow>
            body p = replace_crlf content \<and>
            map_option body (map_of (store w') (title self)) = Some (replace_crlf content)) \<and>
         (\<forall>p. res = Inr (False, p) \<longrightarrow>
            p = self \<and> w' = w \<and> body self = replace_crlf content)"
proof -
  from assms(2) have run: "update_content_all E self (replace_crlf content) base_revision cmt u
      force dcr dd w = Some (res, w')"
    by (simp add: update_content_def)
  have ml: "merge_log w' = merge_log w"
    using update_content_all_no_merge[OF assms(1)[symmetric] run] .
  have t: "\<forall>p. res = Inr (True, p) \<longrightarrow>
            body p = replace_crlf content \<and>
            map_option body (map_of (store w') (title self)) = Some (replace_crlf content)"
  proof (intro allI impI)
    fix p assume "res = Inr (True, p)"
    with run have "update_content_all E self (replace_crlf content) base_revision cmt u
      force dcr dd w = Some (Inr (True, p), w')" by simp
    from update_content_all_True[OF this] obtain new_body w1 where
      m: "merge_if_needed E self base_revision (replace_crlf content) w = (Inr new_body, w1)"
      and b: "body p = new_body"
      and s: "map_option body (map_of (store w') (title self)) = Some new_body"
      by blast
    from m assms(1) have "new_body = replace_crlf content"
      by (simp add: merge_if_needed_def)
    with b s show "body p = replace_crlf content \<and>
            map_option body (map_of (store w') (title self)) = Some (replace_crlf content)"
      by simp
  qed
  have f: "\<forall>p. res = Inr (False, p) \<longrightarrow> p = self \<and> w' = w \<and> body self = replace_crlf content"
    using run update_content_all_False by blast
  show ?thesis using ml t f by blast
qed

lemma toy_crlf_edit:
  "\<exists>p w'. update_content toy_env (new_page ''P'') [CHR ''a'', CR, LF, CHR ''b''] 0 [] None
             False False False ''all'' empty_world = Some (Inr (True, p), w')"
proof -
  have "replace_crlf [CHR ''a'', CR, LF, CHR ''b''] = [CHR ''a'', LF, CHR ''b'']"
    by (simp add: CR_def LF_def)
  moreover have "\<exists>p w'. update_content_all toy_env (new_page ''P'') [CHR ''a'', LF, CHR ''b''] 0 []
      None False False False empty_world = Some (Inr (True, p), w')"
    by (rule toy_edit_fresh) (simp_all add: LF_def)
  ultimately show ?thesis by (simp add: update_content_def)
qed

theorem update_content_at_current_revision_witness:
  "\<exists>p w'. update_content toy_env (new_page ''P'') [CHR ''a'', CR, LF, CHR ''b''] 0 [] None
             False False False ''all'' empty_world = Some (Inr (True, p), w') \<and>
          merge_log w' = [] \<and>
          body p = [CHR ''a'', LF, CHR ''b''] \<and>
          map_option body (map_of (store w') ''P'') = Some [CHR ''a'', LF, CHR ''b'']"
proof -
  from toy_crlf_edit obtain p w' where
    run: "update_content toy_env (new_page ''P'') [CHR ''a'', CR, LF, CHR ''b''] 0 [] None
             False False False ''all'' empty_world = Some (Inr (True, p), w')"
    by blast
  have r: "0 = revision (new_page ''P'')" by (simp add: new_page_def)
  have n: "replace_crlf [CHR ''a'', CR, LF, CHR ''b''] = [CHR ''a'', LF, CHR ''b'']"
    by (simp add: CR_def LF_def)
  from update_content_at_current_revision[OF r run, unfolded n]
  have "merge_log w' = [] \<and> body p = [CHR ''a'', LF, CHR ''b''] \<and>
        map_option body (map_of (store w') ''P'') = Some [CHR ''a'', LF, CHR ''b'']"
    by (simp add: empty_world_def new_page_def)
  with run show ?thesis by blast
qed

text \<open>
  The claim as stated fails where the proposed text holds a carriage return and line
  feed pair: the call at the current revision succeeds, and the stored body is not the
  proposed text byte for byte.
\<close>

theorem stored_body_differs_counterexample:
  "\<exists>p w'. update_content toy_env (new_page ''P'') [CHR ''a'', CR, LF, CHR ''b''] 0 [] None
             False False False ''all'' empty_world = Some (Inr (True, p), w') \<and>
          revision (new_page ''P'') = 0 \<and>
          body p \<noteq> [CHR ''a'', CR, LF, CHR ''b''] \<and>
          map_option body (map_of (store w') ''P'') \<noteq> Some [CHR ''a'', CR, LF, CHR ''b'']"
proof -
  from toy_crlf_edit obtain p w' where
    run: "update_content toy_env (new_page ''P'') [CHR ''a'', CR, LF, CHR ''b''] 0 [] None
             False False False ''all'' empty_world = Some (Inr (True, p), w')"
    by blast
  then have a: "update_content_all toy_env (new_page ''P'')
      (replace_crlf [CHR ''a'', CR, LF, CHR ''b'']) 0 [] None
             False False False empty_world = Some (Inr (True, p), w')"
    by (simp add: update_content_def)
  have n: "replace_crlf [CHR ''a'', CR, LF, CHR ''b''] = [CHR ''a'', LF, CHR ''b'']"
    by (simp add: CR_def LF_def)
  from update_content_all_True[OF a] obtain new_body w1 where
      m: "merge_if_needed toy_env (new_page ''P'') 0 (replace_crlf [CHR ''a'', CR, LF, CHR ''b''])
            empty_world = (Inr new_body, w1)"
      and b: "body p = new_body"
      and s: "map_option body (map_of (store w') (title (new_page ''P''))) = Some new_body"
    by blast
  from m[unfolded n] have nb: "new_body = [CHR ''a'', LF, CHR ''b'']"
    by (simp add: merge_if_needed_def new_page_def)
  have "body p \<noteq> [CHR ''a'', CR, LF, CHR ''b'']"
    using b nb by (simp add: CR_def LF_def)
  moreover have "map_option body (map_of (store w') ''P'') \<noteq> Some [CHR ''a'', CR, LF, CHR ''b'']"
    using s nb by (auto simp: new_page_def CR_def LF_def)
  moreover have "revision (new_page ''P'') = 0" by (simp add: new_page_def)
  ultimately show ?thesis using run by blast
qed

section \<open>Line-end normalisation\<close>

text \<open>
  C10 (as amended). \<open>update_content\<close> passes the proposed content through one
  left-to-right replacement of carriage return and line feed pairs by line feeds
  before anything else, in every mode: two contents with the same replacement give the
  same call. Consequently a whole-body edit whose replaced text equals the stored body
  returns \<open>False\<close> without the force flag and changes nothing; and a body stored by a
  whole-body edit at the current revision contains no such pair, provided the proposed
  content contains no carriage return directly before a pair.
\<close>

theorem update_content_normalises_line_ends:
  "(replace_crlf c1 = replace_crlf c2 \<longrightarrow>
      update_content E self c1 base cmt u force dcr dd partial w
        = update_content E self c2 base cmt u force dcr dd partial w) \<and>
   (\<not> force \<and> replace_crlf content = body self \<longrightarrow>
      update_content E self content base cmt u force dcr dd ''all'' w = Some (Inr (False, self), w)) \<and>
   (base = revision self \<and> \<not> has_cr_crlf content \<and>
    update_content E self content base cmt u force dcr dd ''all'' w = Some (Inr (True, p), w') \<longrightarrow>
      \<not> has_crlf (body p) \<and>
      map_option (\<lambda>q. has_crlf (body q)) (map_of (store w') (title self)) = Some False)"
proof (intro conjI impI)
  assume "replace_crlf c1 = replace_crlf c2"
  then show "update_content E self c1 base cmt u force dcr dd partial w
        = update_content E self c2 base cmt u force dcr dd partial w"
    by (simp add: update_content_def)
next
  assume "\<not> force \<and> replace_crlf content = body self"
  then show "update_content E self content base cmt u force dcr dd ''all'' w = Some (Inr (False, self), w)"
    by (simp add: update_content_def update_content_all_def)
next
  assume a: "base = revision self \<and> \<not> has_cr_crlf content \<and>
    update_content E self content base cmt u force dcr dd ''all'' w = Some (Inr (True, p), w')"
  then have run: "update_content_all E self (replace_crlf content) base cmt u force dcr dd w
      = Some (Inr (True, p), w')"
    by (auto simp: update_content_def)
  from update_content_all_True[OF run] obtain new_body w1 where
      m: "merge_if_needed E self base (replace_crlf content) w = (Inr new_body, w1)"
      and b: "body p = new_body"
      and s: "map_option body (map_of (store w') (title self)) = Some new_body"
    by blast
  from m a have nb: "new_body = replace_crlf content"
    by (simp add: merge_if_needed_def)
  from a has_crlf_replace_crlf have clean: "\<not> has_crlf (replace_crlf content)" by blast
  show "\<not> has_crlf (body p)" using b nb clean by simp
  show "map_option (\<lambda>q. has_crlf (body q)) (map_of (store w') (title self)) = Some False"
    using s nb clean by auto
qed

lemma toy_crcrlf_edit:
  "\<exists>p w'. update_content toy_env (new_page ''P'') [CR, CR, LF] 0 [] None
             False False False ''all'' empty_world = Some (Inr (True, p), w')"
proof -
  have "replace_crlf [CR, CR, LF] = [CR, LF]"
    by (simp add: CR_def LF_def)
  moreover have "\<exists>p w'. update_content_all toy_env (new_page ''P'') [CR, LF] 0 []
      None False False False empty_world = Some (Inr (True, p), w')"
    by (rule toy_edit_fresh) (simp_all add: CR_def)
  ultimately show ?thesis by (simp add: update_content_def)
qed

theorem update_content_normalises_line_ends_witness:
  "update_content toy_env (stored_page ''P'' [CHR ''a'', LF, CHR ''b'']) [CHR ''a'', CR, LF, CHR ''b'']
     1 [] None False False False ''all'' empty_world
     = update_content toy_env (stored_page ''P'' [CHR ''a'', LF, CHR ''b'']) [CHR ''a'', LF, CHR ''b'']
         1 [] None False False False ''all'' empty_world \<and>
   update_content toy_env (stored_page ''P'' [CHR ''a'', LF, CHR ''b'']) [CHR ''a'', CR, LF, CHR ''b'']
     1 [] None False False False ''all'' empty_world
     = Some (Inr (False, stored_page ''P'' [CHR ''a'', LF, CHR ''b'']), empty_world) \<and>
   (\<exists>p w'. update_content toy_env (new_page ''P'') [CHR ''a'', CR, LF, CHR ''b''] 0 [] None
             False False False ''all'' empty_world = Some (Inr (True, p), w') \<and>
          \<not> has_crlf (body p) \<and>
          map_option (\<lambda>q. has_crlf (body q)) (map_of (store w') ''P'') = Some False)"
proof -
  have n: "replace_crlf [CHR ''a'', CR, LF, CHR ''b''] = [CHR ''a'', LF, CHR ''b'']"
    "replace_crlf [CHR ''a'', LF, CHR ''b''] = [CHR ''a'', LF, CHR ''b'']"
    by (simp_all add: CR_def LF_def)
  have same: "replace_crlf [CHR ''a'', CR, LF, CHR ''b''] = replace_crlf [CHR ''a'', LF, CHR ''b'']"
    unfolding n ..
  have unchanged: "\<not> False \<and> replace_crlf [CHR ''a'', CR, LF, CHR ''b'']
      = body (stored_page ''P'' [CHR ''a'', LF, CHR ''b''])"
    unfolding n by (simp add: stored_page_def)
  note stored = update_content_normalises_line_ends[of "[CHR ''a'', CR, LF, CHR ''b'']"
        "[CHR ''a'', LF, CHR ''b'']" toy_env
        "stored_page ''P'' [CHR ''a'', LF, CHR ''b'']" 1 "[]" None False False False
        "''all''" empty_world "[CHR ''a'', CR, LF, CHR ''b'']"]
  have zeroth: "update_content toy_env (stored_page ''P'' [CHR ''a'', LF, CHR ''b''])
     [CHR ''a'', CR, LF, CHR ''b''] 1 [] None False False False ''all'' empty_world
     = update_content toy_env (stored_page ''P'' [CHR ''a'', LF, CHR ''b'']) [CHR ''a'', LF, CHR ''b'']
         1 [] None False False False ''all'' empty_world"
    using stored same by blast
  have first: "update_content toy_env (stored_page ''P'' [CHR ''a'', LF, CHR ''b''])
     [CHR ''a'', CR, LF, CHR ''b''] 1 [] None False False False ''all'' empty_world
     = Some (Inr (False, stored_page ''P'' [CHR ''a'', LF, CHR ''b'']), empty_world)"
    using stored unchanged by blast
  from toy_crlf_edit obtain p w' where
    run: "update_content toy_env (new_page ''P'') [CHR ''a'', CR, LF, CHR ''b''] 0 [] None
             False False False ''all'' empty_world = Some (Inr (True, p), w')"
    by blast
  have pre: "0 = revision (new_page ''P'') \<and> \<not> has_cr_crlf [CHR ''a'', CR, LF, CHR ''b'']"
    by (simp add: new_page_def CR_def LF_def)
  have "\<not> has_crlf (body p) \<and>
        map_option (\<lambda>q. has_crlf (body q)) (map_of (store w') (title (new_page ''P''))) = Some False"
    using update_content_normalises_line_ends[of "[CHR ''a'', CR, LF, CHR ''b'']"
        "[CHR ''a'', LF, CHR ''b'']" toy_env
        "new_page ''P''" 0 "[]" None False False False
        "''all''" empty_world "[CHR ''a'', CR, LF, CHR ''b'']" p w'] pre run by blast
  then have "\<not> has_crlf (body p) \<and>
        map_option (\<lambda>q. has_crlf (body q)) (map_of (store w') ''P'') = Some False"
    by (simp add: new_page_def)
  with run zeroth first show ?thesis by blast
qed

text \<open>
  The claim as stated fails at the content \<open>CR CR LF\<close>: the replacement leaves
  \<open>CR LF\<close>, the edit succeeds, and the stored body holds a carriage return and line feed
  pair.
\<close>

theorem stored_crlf_counterexample:
  "\<exists>p w'. update_content toy_env (new_page ''P'') [CR, CR, LF] 0 [] None
             False False False ''all'' empty_world = Some (Inr (True, p), w') \<and>
          has_crlf (body p) \<and>
          map_option (\<lambda>q. has_crlf (body q)) (map_of (store w') ''P'') = Some True"
proof -
  from toy_crcrlf_edit obtain p w' where
    run: "update_content toy_env (new_page ''P'') [CR, CR, LF] 0 [] None
             False False False ''all'' empty_world = Some (Inr (True, p), w')"
    by blast
  have n: "replace_crlf [CR, CR, LF] = [CR, LF]"
    by (simp add: CR_def LF_def)
  from run have a: "update_content_all toy_env (new_page ''P'') (replace_crlf [CR, CR, LF]) 0 [] None
             False False False empty_world = Some (Inr (True, p), w')"
    by (simp add: update_content_def)
  from update_content_all_True[OF a] obtain new_body w1 where
      m: "merge_if_needed toy_env (new_page ''P'') 0 (replace_crlf [CR, CR, LF])
            empty_world = (Inr new_body, w1)"
      and b: "body p = new_body"
      and s: "map_option body (map_of (store w') (title (new_page ''P''))) = Some new_body"
    by blast
  from m[unfolded n] have nb: "new_body = [CR, LF]"
    by (simp add: merge_if_needed_def new_page_def)
  have "has_crlf (body p)" using b nb by simp
  moreover have "map_option (\<lambda>q. has_crlf (body q)) (map_of (store w') ''P'') = Some True"
    using s nb by (auto simp: new_page_def)
  ultimately show ?thesis using run by blast
qed

section \<open>Conflicting edits\<close>

text \<open>
  C2. For every edit that passes validation and is merged against a stale base
  revision whose record exists: if a conflict marker remains in the three-way merged
  text, then \<open>_update_content_all\<close>, and with it a whole-body \<open>update_content\<close>, fails with
  a \<open>ConflictError\<close> that carries the ancestor text (the body of the base revision
  record), the proposed text (the text handed to the merge, which for a whole-body
  edit is the content after line-end normalisation) and the merged text with its
  markers; the store, the revision records and the queue of deferred work are as
  before the call, the only trace being the record of the merge itself.
\<close>

theorem stale_edit_conflict:
  assumes "\<not> (\<not> force \<and> body self = new_text)"
    and "validate_new_content E w self base_revision new_text u = Some (Inr (d, md))"
    and "revision self \<noteq> base_revision"
    and "find (\<lambda>r. rev_title r = title self \<and> rev_revision r = base_revision) (revisions w) = Some r"
    and "conflict_markers E (merge3 E (rev_body r) (body self) new_text) > 0"
  shows "update_content_all E self new_text base_revision cmt u force dcr dd w
           = Some (Inl (ConflictError ''Conflicted'' (rev_body r) new_text
                          (merge3 E (rev_body r) (body self) new_text)),
                   w\<lparr>merge_log := merge_log w @ [(rev_body r, body self, new_text)]\<rparr>) \<and>
         (new_text = replace_crlf content \<longrightarrow>
            update_content E self content base_revision cmt u force dcr dd ''all'' w
              = Some (Inl (ConflictError ''Conflicted'' (rev_body r) (replace_crlf content)
                             (merge3 E (rev_body r) (body self) (replace_crlf content))),
                      w\<lparr>merge_log := merge_log w @ [(rev_body r, body self, replace_crlf content)]\<rparr>)) \<and>
         store (w\<lparr>merge_log := merge_log w @ [(rev_body r, body self, new_text)]\<rparr>) = store w \<and>
         revisions (w\<lparr>merge_log := merge_log w @ [(rev_body r, body self, new_text)]\<rparr>) = revisions w \<and>
         tasks (w\<lparr>merge_log := merge_log w @ [(rev_body r, body self, new_text)]\<rparr>) = tasks w"
proof -
  have m: "merge_if_needed E self base_revision new_text w
             = (Inl (ConflictError ''Conflicted'' (rev_body r) new_text
                          (merge3 E (rev_body r) (body self) new_text)),
                w\<lparr>merge_log := merge_log w @ [(rev_body r, body self, new_text)]\<rparr>)"
    using assms(3-5) by (simp add: merge_if_needed_def Let_def)
  have run: "update_content_all E self new_text base_revision cmt u force dcr dd w
           = Some (Inl (ConflictError ''Conflicted'' (rev_body r) new_text
                          (merge3 E (rev_body r) (body self) new_text)),
                   w\<lparr>merge_log := merge_log w @ [(rev_body r, body self, new_text)]\<rparr>)"
    using assms(1,2) by (auto simp: update_content_all_def m)
  show ?thesis using run by (auto simp: update_content_def)
qed

lemma edited_validate:
  "validate_new_content conflict_env edited_world edited_page 1 ''theirs'' None
     = Some (Inr ([], [(''schema'', ''Article'')]))"
proof -
  have md: "parse_metadata conflict_env ''theirs'' = Inr [(''schema'', ''Article'')]"
    by (simp add: conflict_env_def toy_env_def toy_metadata_def)
  have rest: "can_read conflict_env edited_page None (Some []) (Some [])"
    "can_write conflict_env edited_page None (Some []) (Some [])"
    "parse_data conflict_env (title edited_page) ''theirs'' ''Article'' = Inr []"
    "toc_invalid conflict_env ''theirs'' = None"
    by (simp_all add: conflict_env_def toy_env_def edited_page_def stored_page_def new_page_def)
  have fr: "follow_redirect conflict_env edited_world edited_page None = Some (Inr edited_page)"
    unfolding follow_redirect_def
    by (subst follow_redirect_loop.simps)
       (simp add: conflict_env_def toy_env_def toy_metadata_def edited_page_def stored_page_def
          new_page_def)
  have rv: "\<not> revision edited_page < 1"
    by (simp add: edited_page_def)
  show ?thesis
    by (simp add: validate_new_content_def md rest fr rv split_acl_def md_get_def invalid_keys_def)
qed

theorem stale_edit_conflict_witness:
  "update_content conflict_env edited_page ''theirs'' 1 [] None False False False ''all'' edited_world
     = Some (Inl (ConflictError ''Conflicted'' ''base'' ''theirs''
                    ''<<<<<<<mine=======theirs>>>>>>>''),
             edited_world\<lparr>merge_log := [(''base'', ''mine'', ''theirs'')]\<rparr>)"
proof -
  have a1: "\<not> (\<not> False \<and> body edited_page = ''theirs'')"
    by (simp add: edited_page_def stored_page_def)
  have a3: "revision edited_page \<noteq> 1" by (simp add: edited_page_def)
  have a4: "find (\<lambda>r. rev_title r = title edited_page \<and> rev_revision r = 1) (revisions edited_world)
              = Some (revision_of ((stored_page ''P'' ''base'')\<lparr>revision := 1\<rparr>))"
    by (simp add: edited_world_def empty_world_def edited_page_def stored_page_def new_page_def
        revision_of_def)
  have a5: "conflict_markers conflict_env
              (merge3 conflict_env (rev_body (revision_of ((stored_page ''P'' ''base'')\<lparr>revision := 1\<rparr>)))
                 (body edited_page) ''theirs'') > 0"
    by (simp add: conflict_env_def)
  have n: "replace_crlf ''theirs'' = ''theirs''" by (simp add: CR_def)
  note th = stale_edit_conflict[OF a1 edited_validate a3 a4 a5, of "[]" False False "''theirs''",
      THEN conjunct2, THEN conjunct1, THEN mp, OF n[symmetric], unfolded n]
  have b: "rev_body (revision_of ((stored_page ''P'' ''base'')\<lparr>revision := 1\<rparr>)) = ''base''"
    "body edited_page = ''mine''" "merge_log edited_world = []"
    by (simp_all add: revision_of_def stored_page_def edited_page_def edited_world_def
        empty_world_def)
  have c: "merge3 conflict_env ''base'' ''mine'' ''theirs'' = ''<<<<<<<mine=======theirs>>>>>>>''"
    by (simp add: conflict_env_def)
  show ?thesis using th unfolding b c by simp
qed

section \<open>Checkbox edits\<close>

lemma box_positions_ge: "p \<in> set (box_positions off s) \<Longrightarrow> off \<le> p"
  by (induction off s rule: box_positions.induct) (auto split: if_splits)

lemma checkbox_sub_positions:
  "checkbox_sub cur i box s =
     (if cur \<le> i \<and> i - cur < length (box_positions off s)
      then take (box_positions off s ! (i - cur) - off) s @ box
           @ drop (box_positions off s ! (i - cur) - off + 3) s
      else s)"
proof (induction cur i box s arbitrary: off rule: checkbox_sub.induct)
  case (1 cur index box a b c rest)
  show ?case
  proof (cases "is_box a b c")
    case True
    note IH = "1.IH"(1)[OF True, of "off + 3"]
    show ?thesis
    proof (cases "cur = index")
      case eq: True
      have "checkbox_sub (Suc index) index box rest = rest"
        using IH eq by simp
      then show ?thesis using True eq by simp
    next
      case False
      show ?thesis
      proof (cases "cur < index \<and> index - Suc cur < length (box_positions (off + 3) rest)")
        case in_range: True
        define p where "p = box_positions (off + 3) rest ! (index - Suc cur)"
        have "p \<in> set (box_positions (off + 3) rest)"
          using in_range by (simp add: p_def)
        then have ge: "off + 3 \<le> p" by (rule box_positions_ge)
        have idx: "index - cur = Suc (index - Suc cur)" using in_range by arith
        have sub: "checkbox_sub (Suc cur) index box rest
                     = take (p - (off + 3)) rest @ box @ drop (p - (off + 3) + 3) rest"
          using IH in_range by (simp add: p_def)
        have "p - off = Suc (Suc (Suc (p - (off + 3))))" using ge by arith
        then have tk: "take (p - off) (a # b # c # rest) = a # b # c # take (p - (off + 3)) rest"
          by (simp only: take_Suc_Cons)
        have "p - off + 3 = Suc (Suc (Suc (p - (off + 3) + 3)))" using ge by arith
        then have dr: "drop (p - off + 3) (a # b # c # rest) = drop (p - (off + 3) + 3) rest"
          by (simp only: drop_Suc_Cons)
        show ?thesis
          using True False in_range sub tk dr idx by (simp add: p_def)
      next
        case out: False
        have "checkbox_sub (Suc cur) index box rest = rest"
          using IH out False by (auto split: if_splits)
        moreover have "\<not> (cur \<le> index \<and> index - cur < length (box_positions off (a # b # c # rest)))"
          using out False True by auto
        ultimately show ?thesis using True False by auto
      qed
    qed
  next
    case False
    note IH = "1.IH"(2)[OF False, of "Suc off"]
    show ?thesis
    proof (cases "cur \<le> index \<and> index - cur < length (box_positions (Suc off) (b # c # rest))")
      case in_range: True
      define p where "p = box_positions (Suc off) (b # c # rest) ! (index - cur)"
      have "p \<in> set (box_positions (Suc off) (b # c # rest))"
        using in_range by (simp add: p_def)
      then have ge: "Suc off \<le> p" by (rule box_positions_ge)
      have sub: "checkbox_sub cur index box (b # c # rest)
                   = take (p - Suc off) (b # c # rest) @ box @ drop (p - Suc off + 3) (b # c # rest)"
        using IH in_range by (simp add: p_def)
      have "p - off = Suc (p - Suc off)" using ge by arith
      then have tk: "take (p - off) (a # b # c # rest) = a # take (p - Suc off) (b # c # rest)"
        by (simp only: take_Suc_Cons)
      have "p - off + 3 = Suc (p - Suc off + 3)" using ge by arith
      then have dr: "drop (p - off + 3) (a # b # c # rest) = drop (p - Suc off + 3) (b # c # rest)"
        by (simp only: drop_Suc_Cons)
      show ?thesis
        using False in_range sub tk dr by (simp add: p_def)
    next
      case out: False
      have "checkbox_sub cur index box (b # c # rest) = b # c # rest"
        using IH out by (auto split: if_splits)
      then show ?thesis using False out by auto
    qed
  qed
qed simp_all

lemma box_positions_sorted: "sorted_wrt (<) (box_positions off s)"
proof (induction off s rule: box_positions.induct)
  case (1 off a b c rest)
  show ?case
  proof (cases "is_box a b c")
    case True
    have "\<forall>p \<in> set (box_positions (off + 3) rest). off < p"
      using box_positions_ge[of _ "off + 3" rest] by fastforce
    then show ?thesis using True "1.IH"(1) by simp
  next
    case False
    then show ?thesis using "1.IH"(2) by simp
  qed
qed simp_all

lemma box_positions_sound:
  "p \<in> set (box_positions off s) \<Longrightarrow>
   p - off + 2 < length s \<and> is_box (s ! (p - off)) (s ! (p - off + 1)) (s ! (p - off + 2))"
proof (induction off s rule: box_positions.induct)
  case (1 off a b c rest)
  show ?case
  proof (cases "is_box a b c")
    case True
    show ?thesis
    proof (cases "p = off")
      case True
      then show ?thesis using \<open>is_box a b c\<close> by simp
    next
      case False
      with "1.prems" True have mem: "p \<in> set (box_positions (off + 3) rest)" by simp
      from box_positions_ge[OF mem] have ge: "off + 3 \<le> p" .
      define k where "k = p - (off + 3)"
      have k: "p - off = Suc (Suc (Suc k))" "p - (off + 3) = k"
        using ge unfolding k_def by arith+
      from "1.IH"(1)[OF True mem] show ?thesis using k by simp
    qed
  next
    case False
    with "1.prems" have mem: "p \<in> set (box_positions (Suc off) (b # c # rest))" by simp
    from box_positions_ge[OF mem] have ge: "Suc off \<le> p" .
    define k where "k = p - Suc off"
    have k: "p - off = Suc k" "p - Suc off = k"
      using ge unfolding k_def by arith+
    from "1.IH"(2)[OF False mem] show ?thesis using k by simp
  qed
qed simp_all


lemma box_positions_complete:
  "p + 2 < length s \<Longrightarrow> is_box (s ! p) (s ! (p + 1)) (s ! (p + 2)) \<Longrightarrow>
   off + p \<in> set (box_positions off s)"
proof (induction off s arbitrary: p rule: box_positions.induct)
  case (1 off a b c rest)
  show ?case
  proof (cases "is_box a b c")
    case True
    consider "p = 0" | "p = 1" | "p = 2" | "3 \<le> p" by arith
    then show ?thesis
    proof cases
      case 1
      then show ?thesis using True by simp
    next
      case 2
      with "1.prems"(2) True show ?thesis
        by (auto simp: is_box_def is_space_def)
    next
      case 3
      with "1.prems"(2) True show ?thesis
        by (auto simp: is_box_def is_space_def)
    next
      case 4
      define k where "k = p - 3"
      have p: "p = Suc (Suc (Suc k))" using 4 unfolding k_def by arith
      have "k + 2 < length rest" using "1.prems"(1) p by simp
      moreover have "is_box (rest ! k) (rest ! (k + 1)) (rest ! (k + 2))"
        using "1.prems"(2) p by simp
      ultimately have "off + 3 + k \<in> set (box_positions (off + 3) rest)"
        by (rule "1.IH"(1)[OF True])
      moreover have "off + 3 + k = off + p" using p by simp
      ultimately show ?thesis using True by simp
    qed
  next
    case False
    have "p \<noteq> 0" using False "1.prems"(2) by (cases p) auto
    then obtain k where p: "p = Suc k" by (cases p) auto
    have "k + 2 < length (b # c # rest)" using "1.prems"(1) p by simp
    moreover have "is_box ((b # c # rest) ! k) ((b # c # rest) ! (k + 1)) ((b # c # rest) ! (k + 2))"
      using "1.prems"(2) p by simp
    ultimately have "Suc off + k \<in> set (box_positions (Suc off) (b # c # rest))"
      by (rule "1.IH"(2)[OF False])
    then show ?thesis using False p by simp
  qed
qed simp_all

lemma set_box_positions:
  "set (box_positions 0 s) = {p. p + 2 < length s \<and> is_box (s ! p) (s ! (p + 1)) (s ! (p + 2))}"
  using box_positions_sound[of _ 0 s] box_positions_complete[of _ s 0] by auto

lemma parse_index_checkbox:
  "parse_index ''checkbox'' e = Some i \<Longrightarrow> e \<noteq> ''all'' \<and> starts_with ''checkbox'' e"
proof -
  assume a: "parse_index ''checkbox'' e = Some i"
  then have t: "take 9 e = ''checkbox[''"
    by (simp add: parse_index_def Let_def eval_nat_numeral split: if_splits)
  then have "take 8 (take 9 e) = ''checkbox''" by simp
  then have "take 8 e = ''checkbox''" by (simp add: min_def)
  moreover from t have "e \<noteq> ''all''" by auto
  ultimately show ?thesis by (simp add: starts_with_def eval_nat_numeral)
qed

lemma toy_edit:
  assumes "body self \<noteq> txt" and "take 10 txt \<noteq> ''.redirect ''"
    and "take 10 (body self) \<noteq> ''.redirect ''" and "acl_read self = []"
    and "published_at self = None"
  shows "\<exists>p w'. update_content_all toy_env self txt (revision self) [] None False False False w
           = Some (Inr (True, p), w')"
proof -
  have v: "validate_new_content toy_env w self (revision self) txt None
             = Some (Inr ([], [(''schema'', ''Article'')]))"
    by (rule toy_validate) (simp_all add: assms)
  have m: "merge_if_needed toy_env self (revision self) txt w = (Inr txt, w)"
    by (simp add: merge_if_needed_def)
  have o: "or_empty (parse_metadata toy_env (body self)) = Inr [(''schema'', ''Article'')]"
    "or_empty (data_of toy_env self) = Inr []"
    using assms(3) by (simp_all add: or_empty_def toy_env_def toy_metadata_def)
  show ?thesis
    by (simp add: update_content_all_def v m o assms(1,5) toy_itemtype_path update_pub_state_def
        unpublish_def update_links_and_data_def Let_def)
qed


text \<open>
  C8 (as amended). For every stored body and every zero-based index \<open>i\<close>,
  \<open>update_content\<close> in \<open>checkbox[i]\<close> mode hands to the whole-body update the stored body
  in which exactly the \<open>i\<close>-th match of \<open>\[(\s|x)]\<close> in document order is replaced, by
  \<open>[x]\<close> where the content is \<open>1\<close> and by \<open>[ ]\<close> otherwise, with every other byte
  identical; with fewer than \<open>i + 1\<close> matches the body is handed on as it is. The
  matches are counted at their positions in increasing order, and these are all the
  positions at which the pattern matches. At the current revision a call that returns
  \<open>True\<close> has stored exactly that text.
\<close>

theorem checkbox_mode_sets_one_box:
  assumes "parse_index ''checkbox'' partial = Some i"
    and "box = (if replace_crlf content = ''1'' then ''[x]'' else ''[ ]'')"
    and "ps = box_positions 0 (body self)"
  shows
    "update_content E self content base cmt u force dcr dd partial w
       = update_content_all E self (checkbox_sub 0 i box (body self)) base cmt u force dcr dd w \<and>
     (i < length ps \<longrightarrow>
        checkbox_sub 0 i box (body self)
          = take (ps ! i) (body self) @ box @ drop (ps ! i + 3) (body self)) \<and>
     (\<not> i < length ps \<longrightarrow> checkbox_sub 0 i box (body self) = body self) \<and>
     sorted_wrt (<) ps \<and>
     set ps = {p. p + 2 < length (body self) \<and>
                  is_box (body self ! p) (body self ! (p + 1)) (body self ! (p + 2))} \<and>
     (base = revision self \<and>
      update_content E self content base cmt u force dcr dd partial w = Some (Inr (True, q), w') \<longrightarrow>
        body q = checkbox_sub 0 i box (body self) \<and>
        map_option body (map_of (store w') (title self)) = Some (checkbox_sub 0 i box (body self)))"
proof -
  from parse_index_checkbox[OF assms(1)]
  have mode: "partial \<noteq> ''all''" "starts_with ''checkbox'' partial" by simp_all
  have call: "update_content E self content base cmt u force dcr dd partial w
       = update_content_all E self (checkbox_sub 0 i box (body self)) base cmt u force dcr dd w"
    using mode assms(1,2) by (simp add: update_content_def update_content_checkbox_def)
  have sub: "checkbox_sub 0 i box (body self) =
     (if i < length ps then take (ps ! i) (body self) @ box @ drop (ps ! i + 3) (body self)
      else body self)"
    using checkbox_sub_positions[of 0 i box "body self" 0] by (simp add: assms(3))
  have stored: "base = revision self \<and>
      update_content E self content base cmt u force dcr dd partial w = Some (Inr (True, q), w') \<longrightarrow>
        body q = checkbox_sub 0 i box (body self) \<and>
        map_option body (map_of (store w') (title self)) = Some (checkbox_sub 0 i box (body self))"
  proof
    assume a: "base = revision self \<and>
      update_content E self content base cmt u force dcr dd partial w = Some (Inr (True, q), w')"
    then have run: "update_content_all E self (checkbox_sub 0 i box (body self)) base cmt u
        force dcr dd w = Some (Inr (True, q), w')"
      using call by auto
    from update_content_all_True[OF run] obtain new_body w1 where
      m: "merge_if_needed E self base (checkbox_sub 0 i box (body self)) w = (Inr new_body, w1)"
      and b: "body q = new_body"
      and s: "map_option body (map_of (store w') (title self)) = Some new_body"
      by blast
    from m a have "new_body = checkbox_sub 0 i box (body self)"
      by (simp add: merge_if_needed_def)
    with b s show "body q = checkbox_sub 0 i box (body self) \<and>
        map_option body (map_of (store w') (title self)) = Some (checkbox_sub 0 i box (body self))"
      by simp
  qed
  have srt: "sorted_wrt (<) ps" unfolding assms(3) by (rule box_positions_sorted)
  have all: "set ps = {p. p + 2 < length (body self) \<and>
                  is_box (body self ! p) (body self ! (p + 1)) (body self ! (p + 2))}"
    unfolding assms(3) by (rule set_box_positions)
  show ?thesis using call sub stored srt all by simp
qed

lemma toy_checkbox_index: "parse_index ''checkbox'' ''checkbox[1]'' = Some 1"
  by (simp add: parse_index_def is_digit_def nat_of_digits_def)

lemma toy_checkbox_index0: "parse_index ''checkbox'' ''checkbox[0]'' = Some 0"
  by (simp add: parse_index_def is_digit_def nat_of_digits_def)

lemma toy_boxes: "box_positions 0 ''a [ ] b [ ] c'' = [2, 8]"
  by (simp add: is_box_def is_space_def)

theorem checkbox_mode_sets_one_box_witness:
  "checkbox_sub 0 1 ''[x]'' ''a [ ] b [ ] c'' = ''a [ ] b [x] c'' \<and>
   (\<exists>q w'. update_content toy_env (stored_page ''P'' ''a [ ] b [ ] c'') ''1'' 1 [] None
              False False False ''checkbox[1]'' empty_world = Some (Inr (True, q), w') \<and>
           body q = ''a [ ] b [x] c'' \<and>
           map_option body (map_of (store w') ''P'') = Some ''a [ ] b [x] c'')"
proof -
  let ?P = "stored_page ''P'' ''a [ ] b [ ] c''"
  have c: "''[x]'' = (if replace_crlf ''1'' = ''1'' then ''[x]'' else ''[ ]'')"
    by simp
  have b: "body ?P = ''a [ ] b [ ] c''" "title ?P = ''P''" "revision ?P = 1"
    by (simp_all add: stored_page_def new_page_def)
  have ps: "[2, 8] = box_positions 0 (body ?P)"
    unfolding b toy_boxes ..
  note th = checkbox_mode_sets_one_box[OF toy_checkbox_index c ps, of toy_env 1 "[]" None False
      False False empty_world]
  have sub: "checkbox_sub 0 1 ''[x]'' ''a [ ] b [ ] c'' = ''a [ ] b [x] c''"
    by (simp add: is_box_def is_space_def)
  have "\<exists>q w'. update_content_all toy_env ?P ''a [ ] b [x] c'' (revision ?P) [] None
           False False False empty_world = Some (Inr (True, q), w')"
    by (rule toy_edit) (simp_all add: stored_page_def new_page_def)
  then obtain q w' where run: "update_content toy_env ?P ''1'' 1 [] None
              False False False ''checkbox[1]'' empty_world = Some (Inr (True, q), w')"
    using th[THEN conjunct1] unfolding b sub by auto
  have "body q = checkbox_sub 0 1 ''[x]'' (body ?P) \<and>
        map_option body (map_of (store w') (title ?P)) = Some (checkbox_sub 0 1 ''[x]'' (body ?P))"
    using th[of q w', THEN conjunct2, THEN conjunct2, THEN conjunct2, THEN conjunct2, THEN conjunct2]
      run b(3) by simp
  then have "body q = ''a [ ] b [x] c'' \<and>
        map_option body (map_of (store w') ''P'') = Some ''a [ ] b [x] c''"
    unfolding b sub by simp
  with sub run show ?thesis by blast
qed

text \<open>
  The claim as stated fails where the box already shows what the content asks for:
  the body \<open>[x]\<close> has its only box at position 0, and \<open>checkbox[0]\<close> with the content \<open>1\<close>
  leaves it checked; the call reports that nothing has changed.
\<close>

theorem checkbox_not_flipped_counterexample:
  "box_positions 0 ''[x]'' = [0] \<and>
   update_content toy_env (stored_page ''P'' ''[x]'') ''1'' 1 [] None
     False False False ''checkbox[0]'' empty_world
     = Some (Inr (False, stored_page ''P'' ''[x]''), empty_world) \<and>
   body (stored_page ''P'' ''[x]'') = ''[x]''"
proof (intro conjI)
  show "box_positions 0 ''[x]'' = [0]"
    by (simp add: is_box_def)
  have m: "''checkbox[0]'' \<noteq> ''all''" "starts_with ''checkbox'' ''checkbox[0]''"
    by (simp_all add: starts_with_def)
  have s: "checkbox_sub 0 0 ''[x]'' ''[x]'' = ''[x]''"
    by (simp add: is_box_def)
  show "update_content toy_env (stored_page ''P'' ''[x]'') ''1'' 1 [] None
     False False False ''checkbox[0]'' empty_world
     = Some (Inr (False, stored_page ''P'' ''[x]''), empty_world)"
    by (simp add: update_content_def m update_content_checkbox_def toy_checkbox_index0
        update_content_all_def stored_page_def s)
  show "body (stored_page ''P'' ''[x]'') = ''[x]''"
    by (simp add: stored_page_def)
qed

section \<open>Mirroring of outbound edges\<close>

text \<open>Two edits of the new page \<open>A\<close> by \<open>bob\<close>, both linking to \<open>B\<close>. The first body
  restricts reading to \<open>bob\<close>: \<open>update_links\<close> records no inbound edge, as the restriction
  demands, but stores the outbound edge on \<open>A\<close> (lines 375-377). The second body lifts the
  restriction: \<open>update_links\<close> now compares the new outbound edges with the stored ones
  (lines 362-367), finds nothing added, and mirrors nothing.\<close>

lemma first_edit_restricted:
  "update_content link_env (new_page ''A'') ''.read bob see B'' 0 [] (Some ''bob'')
     False False True ''all'' empty_world = Some (Inr (True, restricted_A), restricted_world)"
  by code_simp

lemma second_edit_public:
  "update_content link_env restricted_A ''see B'' 1 [] (Some ''bob'')
     False False True ''all'' restricted_world = Some (Inr (True, public_A), public_world)"
  by code_simp

lemma rerun_update_links:
  "update_links link_env public_A None None public_world = Some (Inr public_A, public_world)"
  by code_simp

text \<open>For comparison, the same unrestricted body as the first edit of \<open>A\<close> does record the
  inbound edge on \<open>B\<close>.\<close>

lemma public_first_edit_mirrors:
  "map_option (\<lambda>(r, w). map_option inlinks (map_of (store w) ''B''))
     (update_content link_env (new_page ''A'') ''see B'' 0 [] (Some ''bob'')
        False False True ''all'' empty_world)
   = Some (Some [(''Article/relatedTo'', [''A''])])"
  by code_simp

text \<open>Claim C3 (first half: after \<open>update_links\<close> completes for a page \<open>A\<close> without read
  restriction, every outbound edge from \<open>A\<close> to another page \<open>B\<close> is mirrored in the
  inbound map of \<open>B\<close>) fails in the code. After the restricted edit and the edit that lifts
  the restriction, both of which complete \<open>update_links\<close> for \<open>A\<close>, and also after a further
  run of \<open>update_links\<close> on that state, the page \<open>A\<close> carries no read restriction and the
  outbound edge \<open>A --Article/relatedTo--> B\<close>, while \<open>B\<close> is not even stored and the page
  that \<open>get_by_title\<close> delivers for it has an empty inbound map.\<close>

theorem lifted_restriction_leaves_edge_unmirrored:
  "update_content link_env (new_page ''A'') ''.read bob see B'' 0 [] (Some ''bob'')
     False False True ''all'' empty_world = Some (Inr (True, restricted_A), restricted_world)
   \<and> update_content link_env restricted_A ''see B'' 1 [] (Some ''bob'')
       False False True ''all'' restricted_world = Some (Inr (True, public_A), public_world)
   \<and> update_links link_env public_A None None public_world = Some (Inr public_A, public_world)
   \<and> map_of (store public_world) ''A'' = Some public_A
   \<and> acl_read public_A = []
   \<and> outlinks public_A = [(''Article/relatedTo'', [''B''])]
   \<and> map_of (store public_world) ''B'' = None
   \<and> map_option (map_sum id inlinks) (get_by_title link_env public_world ''B'' True)
       = Some (Inr [])"
proof -
  have "map_of (store public_world) ''A'' = Some public_A"
    by code_simp
  moreover have "acl_read public_A = []"
    by code_simp
  moreover have "outlinks public_A = [(''Article/relatedTo'', [''B''])]"
    by code_simp
  moreover have "map_of (store public_world) ''B'' = None"
    by code_simp
  moreover have "map_option (map_sum id inlinks) (get_by_title link_env public_world ''B'' True)
       = Some (Inr [])"
    by code_simp
  ultimately show ?thesis
    using first_edit_restricted second_edit_public rerun_update_links by simp
qed

section \<open>Validation of structured data\<close>


text \<open>Invalid properties that are not inside a list are rejected, all keys in one message,
  and nothing is written.\<close>

lemma scalar_invalid_rejected:
  "update_content list_data_env (new_page ''P'') ''single'' 0 [] None
     False False True ''all'' empty_world
   = Some (Inl (ValueError ''Invalid schema data: author, isbn''), empty_world)"
  by code_simp


end
